theory Spec2Isabelle
  imports Main
begin

section \<open>Values, dictionaries and text\<close>

text \<open>
  The client of \<^verbatim>\<open>wda/__init__.py\<close> exchanges JSON with a remote agent. A decoded JSON
  value, a request body and Python's \<^verbatim>\<open>None\<close> are values of one datatype; \<^verbatim>\<open>None\<close> is
  \<open>JNull\<close>. A dictionary is an association list that is read at the first entry of a key.
  JSON numbers are integers here: floating-point numbers are outside the model.

  A Python \<^verbatim>\<open>str\<close> is a HOL string holding the UTF-8 bytes of the text, so for ASCII text
  (every path, verb and key of the protocol) a \<open>char\<close> is a character.
\<close>

datatype json =
    JNull
  | JBool bool
  | JInt int
  | JStr string
  | JList "json list"
  | JObj "(string \<times> json) list"

type_synonym dict = "(string \<times> json) list"

text \<open>Python's truth test of a value (\<^verbatim>\<open>if x:\<close>).\<close>

fun truthy :: "json \<Rightarrow> bool" where
  "truthy JNull = False"
| "truthy (JBool b) = b"
| "truthy (JInt i) = (i \<noteq> 0)"
| "truthy (JStr s) = (s \<noteq> [])"
| "truthy (JList xs) = (xs \<noteq> [])"
| "truthy (JObj kvs) = (kvs \<noteq> [])"

text \<open>\<^verbatim>\<open>d.get(k)\<close>: the entry, or \<^verbatim>\<open>None\<close>.\<close>

definition dict_get :: "dict \<Rightarrow> string \<Rightarrow> json" where
  "dict_get d k = (case map_of d k of None \<Rightarrow> JNull | Some v \<Rightarrow> v)"

text \<open>\<^verbatim>\<open>d[k] = v\<close>: replaces the entry of \<open>k\<close>, or adds one at the end.\<close>

fun dict_set :: "dict \<Rightarrow> string \<Rightarrow> json \<Rightarrow> dict" where
  "dict_set [] k v = [(k, v)]"
| "dict_set ((k', v') # d) k v = (if k' = k then (k, v) # d else (k', v') # dict_set d k v)"

text \<open>\<^verbatim>\<open>d.pop(k, None)\<close>, as far as the dictionary goes: no entry of \<open>k\<close> is left.\<close>

definition dict_pop :: "dict \<Rightarrow> string \<Rightarrow> dict" where
  "dict_pop d k = filter (\<lambda>kv. fst kv \<noteq> k) d"

text \<open>\<^verbatim>\<open>d.setdefault(k, v)\<close>, as far as the dictionary goes.\<close>

definition setdefault :: "dict \<Rightarrow> string \<Rightarrow> json \<Rightarrow> dict" where
  "setdefault d k v = (case map_of d k of None \<Rightarrow> d @ [(k, v)] | Some _ \<Rightarrow> d)"

text \<open>\<^verbatim>\<open>s.endswith("/")\<close>.\<close>

definition endswith_slash :: "string \<Rightarrow> bool" where
  "endswith_slash s = (s \<noteq> [] \<and> last s = CHR ''/'')"

text \<open>
  \<^verbatim>\<open>s.upper()\<close> on ASCII letters; every other byte is kept (the verbs of this client are
  \<^verbatim>\<open>GET\<close>, \<^verbatim>\<open>POST\<close> and \<^verbatim>\<open>DELETE\<close>).
\<close>

definition upper_char :: "char \<Rightarrow> char" where
  "upper_char ch =
     (case map_of (zip ''abcdefghijklmnopqrstuvwxyz'' ''ABCDEFGHIJKLMNOPQRSTUVWXYZ'') ch of
        None \<Rightarrow> ch
      | Some u \<Rightarrow> u)"

definition upper :: "string \<Rightarrow> string" where
  "upper s = map upper_char s"

text \<open>
  \<^verbatim>\<open>not s.strip()\<close>: the text is empty or consists of white space only. Python strips the
  characters for which \<^verbatim>\<open>str.isspace\<close> holds: U+0009 to U+000D, U+001C to U+0020, U+0085,
  U+00A0, U+1680, U+2000 to U+200A, U+2028, U+2029, U+202F, U+205F and U+3000, read here
  in their UTF-8 encoding.
\<close>

definition ascii_space :: "nat \<Rightarrow> bool" where
  "ascii_space n = (9 \<le> n \<and> n \<le> 13 \<or> 28 \<le> n \<and> n \<le> 32)"

fun blank_bytes :: "nat list \<Rightarrow> bool" where
  "blank_bytes [] = True"
| "blank_bytes [a] = ascii_space a"
| "blank_bytes [a, b] =
     (if ascii_space a then ascii_space b else a = 194 \<and> (b = 133 \<or> b = 160))"
| "blank_bytes (a # b # c # ds) =
     (if ascii_space a then blank_bytes (b # c # ds)
      else if a = 194 then (b = 133 \<or> b = 160) \<and> blank_bytes (c # ds)
      else if a = 225 then b = 154 \<and> c = 128 \<and> blank_bytes ds
      else if a = 226 then
        (b = 128 \<and> (128 \<le> c \<and> c \<le> 138 \<or> c = 168 \<or> c = 169 \<or> c = 175) \<or> b = 129 \<and> c = 159)
        \<and> blank_bytes ds
      else if a = 227 then b = 128 \<and> c = 128 \<and> blank_bytes ds
      else False)"

definition blank :: "string \<Rightarrow> bool" where
  "blank s = blank_bytes (map of_char s)"

text \<open>
  \<^verbatim>\<open>s[:n]\<close>: the first \<open>n\<close> characters. A character starts at a byte that is not a UTF-8
  continuation byte (\<open>0x80\<close> to \<open>0xBF\<close>).
\<close>

definition continuation :: "char \<Rightarrow> bool" where
  "continuation ch = (128 \<le> (of_char ch :: nat) \<and> (of_char ch :: nat) < 192)"

fun take_chars :: "nat \<Rightarrow> string \<Rightarrow> string" where
  "take_chars n [] = []"
| "take_chars n (ch # s) =
     (if continuation ch then ch # take_chars n s
      else (case n of 0 \<Rightarrow> [] | Suc m \<Rightarrow> ch # take_chars m s))"

section \<open>Exceptions\<close>

text \<open>
  Modelled from the spec: the exception classes of \<^verbatim>\<open>wda/exceptions.py\<close>, which is not among
  the sources. The client raises them by name with the arguments recorded here. Section 7
  of the specification lists the invalid-session, possibly-crashed, keyboard-not-present,
  stale-element and unknown errors with the generic request error as the remote-reported
  logical failures, and the client builds each of them from a status and a value like
  \<^verbatim>\<open>WDARequestError\<close>; the five are taken as its subclasses, which is what the
  \<^verbatim>\<open>isinstance\<close> test inside \<^verbatim>\<open>except WDARequestError\<close> of \<^verbatim>\<open>close\<close> relies on. No other
  subclass relation is assumed. \<open>AttributeError\<close>, \<open>KeyError\<close>, \<open>TypeError\<close> and
  \<open>AssertionError\<close> are Python's own; their messages are not modelled.
\<close>

datatype exc_class =
    WDAError
  | WDABadGateway
  | WDAEmptyResponseError
  | WDARequestError
  | WDAInvalidSessionIdError
  | WDAPossiblyCrashedError
  | WDAKeyboardNotPresentError
  | WDAStaleElementReferenceError
  | WDAUnknownError
  | AttributeError
  | KeyError
  | TypeError
  | AssertionError

text \<open>An exception: its class and the arguments it was built from.\<close>

datatype exc = Exc exc_class "json list"

fun exc_class_of :: "exc \<Rightarrow> exc_class" where
  "exc_class_of (Exc k args) = k"

definition request_error_kinds :: "exc_class list" where
  "request_error_kinds =
     [WDAInvalidSessionIdError, WDAPossiblyCrashedError, WDAKeyboardNotPresentError,
      WDAStaleElementReferenceError, WDAUnknownError]"

definition is_subclass :: "exc_class \<Rightarrow> exc_class \<Rightarrow> bool" where
  "is_subclass k parent = (k = parent \<or> (parent = WDARequestError \<and> k \<in> set request_error_kinds))"

text \<open>\<^verbatim>\<open>isinstance(e, cls)\<close>, and so what \<^verbatim>\<open>except cls\<close> catches.\<close>

definition isinstance :: "exc \<Rightarrow> exc_class \<Rightarrow> bool" where
  "isinstance e parent = is_subclass (exc_class_of e) parent"

text \<open>
  What a call comes to: it returns, it raises, or the model's recursion budget ran out
  before it did either (see \<open>session_id\<close> below).
\<close>

datatype 'a outcome = Return 'a | Raise exc | OutOfFuel

text \<open>\<^verbatim>\<open>class Status(enum.IntEnum)\<close>.\<close>

definition Status_UNKNOWN :: int where
  "Status_UNKNOWN = 100"

definition Status_ERROR :: int where
  "Status_ERROR = 110"

section \<open>The network and the trace of effects\<close>

text \<open>
  The arguments of \<^verbatim>\<open>requests.request\<close> as \<^verbatim>\<open>_fetch\<close> passes them, and what comes back:
  a \<^verbatim>\<open>RequestException\<close> with its message, or a response with its status code, its text
  and the result of \<^verbatim>\<open>resp.json()\<close> (\<open>None\<close> when that raises \<^verbatim>\<open>ValueError\<close>).
\<close>

record http_request =
  req_verb :: string
  req_url :: string
  req_json :: json
  req_headers :: "(string \<times> string) list"
  req_timeout :: "nat option"

record http_response =
  status_code :: int
  body_text :: string
  body_json :: "json option"

datatype http_result = RequestException string | Response http_response

text \<open>
  Effects are recorded in a trace, oldest first: a request sent, a \<^verbatim>\<open>time.sleep\<close> (in
  milliseconds), and a call of a registered callback (event name and handler).
\<close>

datatype event = Sent http_request | Slept nat | Called string nat

type_synonym trace = "event list"

text \<open>
  What the model takes from outside the repository's sources: the remote end (its
  answer to a request may depend on everything that happened before), \<^verbatim>\<open>urllib\<close>'s
  \<^verbatim>\<open>urlparse(url).geturl()\<close> and \<^verbatim>\<open>urljoin\<close>, the \<^verbatim>\<open>check\<close> predicates of the five
  error classes of \<^verbatim>\<open>wda/exceptions.py\<close> (each a truth value of the cleaned value), and
  Python's \<^verbatim>\<open>str()\<close> of a value that is not a string.
\<close>

record env =
  transport :: "trace \<Rightarrow> http_request \<Rightarrow> http_result"
  urlparse_geturl :: "string \<Rightarrow> string"
  urljoin :: "string \<Rightarrow> string \<Rightarrow> string"
  check :: "exc_class \<Rightarrow> dict \<Rightarrow> bool"
  str_other :: "json \<Rightarrow> string"

text \<open>\<^verbatim>\<open>f"{v}"\<close>.\<close>

fun format_value :: "env \<Rightarrow> json \<Rightarrow> string" where
  "format_value E (JStr s) = s"
| "format_value E v = str_other E v"

section \<open>The client\<close>

text \<open>
  \<^verbatim>\<open>class BaseClient\<close>: the private attributes \<^verbatim>\<open>__wda_url\<close>, \<^verbatim>\<open>__session_id\<close>,
  \<^verbatim>\<open>__timeout\<close> (seconds) and \<^verbatim>\<open>__callbacks\<close>, a registry from event names to handlers.
\<close>

record client =
  c_wda_url :: string
  c_session_id :: json
  c_timeout :: nat
  c_callbacks :: "(string \<times> nat list) list"

text \<open>\<^verbatim>\<open>class Callback(str, enum.Enum)\<close>, the event names.\<close>

definition Callback_ERROR :: string where
  "Callback_ERROR = ''::error''"

definition Callback_HTTP_REQUEST_BEFORE :: string where
  "Callback_HTTP_REQUEST_BEFORE = ''::http-request-before''"

definition Callback_HTTP_REQUEST_AFTER :: string where
  "Callback_HTTP_REQUEST_AFTER = ''::http-request-after''"

text \<open>\<^verbatim>\<open>BaseClient.__init__(url, _session_id)\<close>, for a string \<open>url\<close>.\<close>

definition BaseClient_init :: "env \<Rightarrow> string \<Rightarrow> json \<Rightarrow> client" where
  "BaseClient_init E url sid =
     (let url' = (if \<not> endswith_slash url then url @ ''/'' else url)
      in \<lparr>c_wda_url = urlparse_geturl E url', c_session_id = sid, c_timeout = 30,
          c_callbacks = []\<rparr>)"

subsection \<open>The request pipeline\<close>

text \<open>
  The body of \<^verbatim>\<open>_fetch\<close> from the headers on, at the URL it has computed. The classes are
  tried in the order of the source's tuple, on the value without its \<^verbatim>\<open>traceback\<close>.
\<close>

definition classify :: "env \<Rightarrow> dict \<Rightarrow> exc_class" where
  "classify E v =
     (case find (\<lambda>err_cls. check E err_cls v) request_error_kinds of
        Some err_cls \<Rightarrow> err_cls
      | None \<Rightarrow> WDARequestError)"

definition the_request :: "string \<Rightarrow> string \<Rightarrow> json \<Rightarrow> nat option \<Rightarrow> http_request" where
  "the_request verb url data tmo =
     \<lparr>req_verb = upper verb, req_url = url,
      req_json = (if truthy data then data else JNull),
      req_headers = (if truthy data then [(''Content-Type'', ''application/json'')] else []),
      req_timeout = tmo\<rparr>"

text \<open>
  Modelled from the spec: \<^verbatim>\<open>convert\<close> and \<^verbatim>\<open>AttrDict\<close> of \<^verbatim>\<open>wda/utils.py\<close>, which is not
  among the sources; section 9 of the specification calls it attribute-style access to
  the decoded JSON. The converted envelope is the dictionary itself, and reading an
  attribute whose key is absent raises \<open>AttributeError\<close>.
\<close>

definition getattr :: "dict \<Rightarrow> string \<Rightarrow> exc + json" where
  "getattr r k = (case map_of r k of None \<Rightarrow> Inl (Exc AttributeError []) | Some v \<Rightarrow> Inr v)"

definition fetch_at ::
  "env \<Rightarrow> string \<Rightarrow> string \<Rightarrow> json \<Rightarrow> nat option \<Rightarrow> trace \<Rightarrow> dict outcome \<times> trace" where
  "fetch_at E verb url data tmo tr =
     (let req = the_request verb url data tmo; tr' = tr @ [Sent req] in
      case transport E tr req of
        RequestException msg \<Rightarrow> (Raise (Exc WDAError [JStr verb, JStr url, JStr msg]), tr')
      | Response resp \<Rightarrow>
          if status_code resp = 502 then
            (Raise (Exc WDABadGateway [JInt (status_code resp), JStr (body_text resp)]), tr')
          else if blank (body_text resp) then
            (Raise (Exc WDAEmptyResponseError [JStr verb, JStr url, data]), tr')
          else
            (case body_json resp of
               None \<Rightarrow>
                 (Raise (Exc WDAError
                    [JStr verb, JStr url, JStr (take_chars 100 (body_text resp) @ ''...'')]), tr')
             | Some (JObj retjson) \<Rightarrow>
                 (let r = setdefault retjson ''status'' (JInt 0) in
                  case getattr r ''value'' of
                    Inl e \<Rightarrow> (Raise e, tr')
                  | Inr (JObj v) \<Rightarrow>
                      if truthy (dict_get v ''error'') then
                        (let v' = dict_pop v ''traceback'' in
                         (Raise (Exc (classify E v') [JInt Status_ERROR, JObj v']), tr'))
                      else (Return r, tr')
                  | Inr _ \<Rightarrow> (Return r, tr'))
             | Some _ \<Rightarrow> (Raise (Exc AttributeError []), tr')))"

text \<open>
  The two URLs of \<^verbatim>\<open>_fetch\<close>: joined to the base, or to the base and the session.
\<close>

definition plain_url :: "env \<Rightarrow> client \<Rightarrow> string \<Rightarrow> string" where
  "plain_url E c urlpath = urljoin E (c_wda_url c) urlpath"

definition session_url :: "env \<Rightarrow> client \<Rightarrow> json \<Rightarrow> string \<Rightarrow> string" where
  "session_url E c sid urlpath =
     urljoin E (urljoin E (c_wda_url c) (''session/'' @ format_value E sid @ ''/'')) urlpath"

text \<open>
  \<^verbatim>\<open>_fetch\<close> with \<^verbatim>\<open>with_session=False\<close>, which is what the \<^verbatim>\<open>http\<close> property hands out
  (\<^verbatim>\<open>fetch\<close>, \<^verbatim>\<open>get\<close>, \<^verbatim>\<open>post\<close>). Every method takes the client and the trace last and
  returns its outcome with the client and the trace after the call.
\<close>

definition http_fetch ::
  "env \<Rightarrow> string \<Rightarrow> string \<Rightarrow> json \<Rightarrow> nat option \<Rightarrow> client \<Rightarrow> trace
     \<Rightarrow> dict outcome \<times> client \<times> trace" where
  "http_fetch E verb urlpath data tmo c tr =
     (case fetch_at E verb (plain_url E c urlpath) data tmo tr of
        (r, tr') \<Rightarrow> (r, c, tr'))"

definition http_get ::
  "env \<Rightarrow> string \<Rightarrow> json \<Rightarrow> nat option \<Rightarrow> client \<Rightarrow> trace \<Rightarrow> dict outcome \<times> client \<times> trace" where
  "http_get E urlpath data tmo c tr = http_fetch E ''GET'' urlpath data tmo c tr"

definition http_post ::
  "env \<Rightarrow> string \<Rightarrow> json \<Rightarrow> nat option \<Rightarrow> client \<Rightarrow> trace \<Rightarrow> dict outcome \<times> client \<times> trace" where
  "http_post E urlpath data tmo c tr = http_fetch E ''POST'' urlpath data tmo c tr"

subsection \<open>Retry\<close>

text \<open>
  The loop of the \<^verbatim>\<open>retry\<close> package behind \<^verbatim>\<open>@retry.retry(exceptions, tries, delay, jitter)\<close>
  (with its defaults \<^verbatim>\<open>backoff=1\<close> and \<^verbatim>\<open>max_delay=None\<close>, and a number as jitter): call
  the function; on an exception of the given class count the try, raise it again when no
  try is left, otherwise sleep \<open>delay\<close>, add the jitter to the delay and go round. Delays
  are in milliseconds. With no try at all the loop ends and the call returns \<^verbatim>\<open>None\<close>.
\<close>

fun retry_internal ::
  "(client \<Rightarrow> trace \<Rightarrow> json outcome \<times> client \<times> trace) \<Rightarrow> exc_class \<Rightarrow> nat \<Rightarrow> nat \<Rightarrow> nat
     \<Rightarrow> client \<Rightarrow> trace \<Rightarrow> json outcome \<times> client \<times> trace" where
  "retry_internal f exceptions 0 delay jitter c tr = (Return JNull, c, tr)"
| "retry_internal f exceptions (Suc tries) delay jitter c tr =
     (case f c tr of
        (Return r, c', tr') \<Rightarrow> (Return r, c', tr')
      | (OutOfFuel, c', tr') \<Rightarrow> (OutOfFuel, c', tr')
      | (Raise e, c', tr') \<Rightarrow>
          if isinstance e exceptions then
            (if tries = 0 then (Raise e, c', tr')
             else retry_internal f exceptions tries (delay + jitter) jitter c' (tr' @ [Slept delay]))
          else (Raise e, c', tr'))"

subsection \<open>Operations that need no session\<close>

text \<open>\<^verbatim>\<open>x[k]\<close> for a string \<open>k\<close>.\<close>

fun subscript :: "json \<Rightarrow> string \<Rightarrow> exc + json" where
  "subscript (JObj d) k =
     (case map_of d k of None \<Rightarrow> Inl (Exc KeyError [JStr k]) | Some v \<Rightarrow> Inr v)"
| "subscript v k = Inl (Exc TypeError [])"

text \<open>The body of \<^verbatim>\<open>status\<close>, and \<^verbatim>\<open>status\<close> under its decorator.\<close>

definition status_body :: "env \<Rightarrow> client \<Rightarrow> trace \<Rightarrow> json outcome \<times> client \<times> trace" where
  "status_body E c tr =
     (case http_get E ''status'' JNull None c tr of
        (Return res, c', tr') \<Rightarrow>
          (case map_of res ''value'' of
             None \<Rightarrow> (Raise (Exc KeyError [JStr ''value'']), c', tr')
           | Some (JObj v) \<Rightarrow>
               (Return (JObj (dict_set v ''sessionId'' (dict_get res ''sessionId''))), c', tr')
           | Some _ \<Rightarrow> (Raise (Exc TypeError []), c', tr'))
      | (Raise e, c', tr') \<Rightarrow> (Raise e, c', tr')
      | (OutOfFuel, c', tr') \<Rightarrow> (OutOfFuel, c', tr'))"

definition status :: "env \<Rightarrow> client \<Rightarrow> trace \<Rightarrow> json outcome \<times> client \<times> trace" where
  "status E c tr = retry_internal (status_body E) WDAEmptyResponseError 3 2000 0 c tr"

text \<open>\<^verbatim>\<open>locked\<close> and \<^verbatim>\<open>unlock\<close>.\<close>

definition locked :: "env \<Rightarrow> client \<Rightarrow> trace \<Rightarrow> json outcome \<times> client \<times> trace" where
  "locked E c tr =
     (case http_get E ''wda/locked'' JNull None c tr of
        (Return res, c', tr') \<Rightarrow>
          (case getattr res ''value'' of
             Inl e \<Rightarrow> (Raise e, c', tr')
           | Inr v \<Rightarrow> (Return v, c', tr'))
      | (Raise e, c', tr') \<Rightarrow> (Raise e, c', tr')
      | (OutOfFuel, c', tr') \<Rightarrow> (OutOfFuel, c', tr'))"

definition unlock :: "env \<Rightarrow> client \<Rightarrow> trace \<Rightarrow> dict outcome \<times> client \<times> trace" where
  "unlock E c tr = http_post E ''wda/unlock'' JNull None c tr"

text \<open>\<^verbatim>\<open>if self.locked(): self.unlock()\<close>, the two lines of \<^verbatim>\<open>session\<close> before its request.\<close>

definition ensure_unlocked :: "env \<Rightarrow> client \<Rightarrow> trace \<Rightarrow> unit outcome \<times> client \<times> trace" where
  "ensure_unlocked E c tr =
     (case locked E c tr of
        (Raise e, c1, tr1) \<Rightarrow> (Raise e, c1, tr1)
      | (OutOfFuel, c1, tr1) \<Rightarrow> (OutOfFuel, c1, tr1)
      | (Return is_locked, c1, tr1) \<Rightarrow>
          if truthy is_locked then
            (case unlock E c1 tr1 of
               (Raise e, c2, tr2) \<Rightarrow> (Raise e, c2, tr2)
             | (OutOfFuel, c2, tr2) \<Rightarrow> (OutOfFuel, c2, tr2)
             | (Return unlocked, c2, tr2) \<Rightarrow> (Return (), c2, tr2))
          else (Return (), c1, tr1))"



subsection \<open>The session manager\<close>

text \<open>
  The payload of \<^verbatim>\<open>session\<close>; the \<^verbatim>\<open>assert\<close> on the alert action fails before anything is
  sent.
\<close>

definition session_payload :: "json \<Rightarrow> json \<Rightarrow> json \<Rightarrow> json \<Rightarrow> exc + json" where
  "session_payload bundle_id arguments environment alert_action =
     (if truthy bundle_id then
        (let always_match =
               [(''bundleId'', bundle_id),
                (''arguments'', if truthy arguments then arguments else JList []),
                (''environment'', if truthy environment then environment else JObj []),
                (''shouldWaitForQuiescence'', JBool False)]
         in if truthy alert_action \<and> alert_action \<notin> {JStr ''accept'', JStr ''dismiss''} then
              Inl (Exc AssertionError [])
            else
              (let capabilities =
                     dict_set
                       (if truthy alert_action then [(''defaultAlertAction'', alert_action)] else [])
                       ''alwaysMatch'' (JObj always_match)
               in Inr (JObj [(''capabilities'', JObj capabilities),
                             (''desiredCapabilities'', JObj always_match)])))
      else Inr (JObj [(''capabilities'', JObj []), (''desiredCapabilities'', JObj [])]))"

text \<open>
  The last three lines of \<^verbatim>\<open>session\<close>: a new \<^verbatim>\<open>Client\<close> at the same URL with the session
  identifier of the response, the timeout and the callbacks of this client.
\<close>

definition new_client :: "env \<Rightarrow> client \<Rightarrow> dict \<Rightarrow> exc + client" where
  "new_client E c res =
     (case getattr res ''sessionId'' of
        Inl e \<Rightarrow> Inl e
      | Inr sid \<Rightarrow>
          Inr ((BaseClient_init E (c_wda_url c) sid)
                 \<lparr>c_timeout := c_timeout c, c_callbacks := c_callbacks c\<rparr>))"

text \<open>
  The property \<^verbatim>\<open>session_id\<close>, the method \<^verbatim>\<open>session\<close> and \<^verbatim>\<open>_fetch\<close> with
  \<^verbatim>\<open>with_session=True\<close> (what \<^verbatim>\<open>_session_http\<close> hands out) call each other: reading the
  identifier of an unbound client may create a session, creating a session may fall back to
  \<^verbatim>\<open>self.session().app_state(bundle_id)\<close>, and that request reads the identifier of the
  new client. The three bodies are written first, each with the nested calls it makes as
  parameters: \<open>session'\<close> for \<^verbatim>\<open>self.session()\<close> and \<open>session_id'\<close> for the property read.
\<close>

type_synonym session_id_fn = "client \<Rightarrow> trace \<Rightarrow> json outcome \<times> client \<times> trace"

type_synonym session_fn =
  "json \<Rightarrow> json \<Rightarrow> json \<Rightarrow> json \<Rightarrow> client \<Rightarrow> trace \<Rightarrow> client outcome \<times> client \<times> trace"

definition session_id_body :: "env \<Rightarrow> session_fn \<Rightarrow> session_id_fn \<Rightarrow> session_id_fn" where
  "session_id_body E session' session_id' c tr =
     (if truthy (c_session_id c) then (Return (c_session_id c), c, tr)
      else
        (case status E c tr of
           (Return st, c1, tr1) \<Rightarrow>
             (case subscript st ''sessionId'' of
                Inl e \<Rightarrow> (Raise e, c1, tr1)
              | Inr current_sid \<Rightarrow>
                  if truthy current_sid then
                    (Return current_sid, c1\<lparr>c_session_id := current_sid\<rparr>, tr1)
                  else
                    (case session' JNull JNull JNull JNull c1 tr1 of
                       (Return c2, c1', tr2) \<Rightarrow>
                         (case session_id' c2 tr2 of (r, c2', tr3) \<Rightarrow> (r, c1', tr3))
                     | (Raise e, c1', tr2) \<Rightarrow> (Raise e, c1', tr2)
                     | (OutOfFuel, c1', tr2) \<Rightarrow> (OutOfFuel, c1', tr2)))
         | (Raise e, c1, tr1) \<Rightarrow> (Raise e, c1, tr1)
         | (OutOfFuel, c1, tr1) \<Rightarrow> (OutOfFuel, c1, tr1)))"

definition session_fetch_body ::
  "env \<Rightarrow> session_id_fn \<Rightarrow> string \<Rightarrow> string \<Rightarrow> json \<Rightarrow> nat option \<Rightarrow> client \<Rightarrow> trace
     \<Rightarrow> dict outcome \<times> client \<times> trace" where
  "session_fetch_body E session_id' verb urlpath data tmo c tr =
     (case session_id' c tr of
        (Return sid, c1, tr1) \<Rightarrow>
          (case fetch_at E verb (session_url E c1 sid urlpath) data tmo tr1 of
             (r, tr2) \<Rightarrow> (r, c1, tr2))
      | (Raise e, c1, tr1) \<Rightarrow> (Raise e, c1, tr1)
      | (OutOfFuel, c1, tr1) \<Rightarrow> (OutOfFuel, c1, tr1))"

text \<open>
  The fallback of \<^verbatim>\<open>session\<close>, the body of its \<^verbatim>\<open>except WDAEmptyResponseError\<close> with what
  follows it; \<open>e\<close> is the exception being handled, which the bare \<^verbatim>\<open>raise\<close> raises again.
  \<^verbatim>\<open>app_state\<close> of the new client is its \<^verbatim>\<open>_session_http.post\<close>.
\<close>

definition session_fallback ::
  "env \<Rightarrow> session_fn \<Rightarrow> session_id_fn \<Rightarrow> exc \<Rightarrow> json \<Rightarrow> client \<Rightarrow> trace
     \<Rightarrow> client outcome \<times> client \<times> trace" where
  "session_fallback E session' session_id' e bundle_id c tr =
     (case session' JNull JNull JNull JNull c tr of
        (Raise e', c1, tr1) \<Rightarrow> (Raise e', c1, tr1)
      | (OutOfFuel, c1, tr1) \<Rightarrow> (OutOfFuel, c1, tr1)
      | (Return fresh, c1, tr1) \<Rightarrow>
          (case session_fetch_body E session_id' ''POST'' ''wda/apps/state''
                  (JObj [(''bundleId'', bundle_id)]) None fresh tr1 of
             (Raise e', fresh', tr2) \<Rightarrow> (Raise e', c1, tr2)
           | (OutOfFuel, fresh', tr2) \<Rightarrow> (OutOfFuel, c1, tr2)
           | (Return res, fresh', tr2) \<Rightarrow>
               (case getattr res ''value'' of
                  Inl e' \<Rightarrow> (Raise e', c1, tr2)
                | Inr v \<Rightarrow>
                    if v \<noteq> JInt 4 then (Raise e, c1, tr2)
                    else
                      (case new_client E c1 res of
                         Inl e' \<Rightarrow> (Raise e', c1, tr2)
                       | Inr cl \<Rightarrow> (Return cl, c1, tr2)))))"

definition session_body :: "env \<Rightarrow> session_fn \<Rightarrow> session_id_fn \<Rightarrow> session_fn" where
  "session_body E session' session_id' bundle_id arguments environment alert_action c tr =
     (case session_payload bundle_id arguments environment alert_action of
        Inl e \<Rightarrow> (Raise e, c, tr)
      | Inr payload \<Rightarrow>
          (case ensure_unlocked E c tr of
             (Raise e, c2, tr2) \<Rightarrow> (Raise e, c2, tr2)
           | (OutOfFuel, c2, tr2) \<Rightarrow> (OutOfFuel, c2, tr2)
           | (Return unlocked, c2, tr2) \<Rightarrow>
               (case http_post E ''session'' payload None c2 tr2 of
                  (Return res, c3, tr3) \<Rightarrow>
                    (case new_client E c3 res of
                       Inl e \<Rightarrow> (Raise e, c3, tr3)
                     | Inr cl \<Rightarrow> (Return cl, c3, tr3))
                | (OutOfFuel, c3, tr3) \<Rightarrow> (OutOfFuel, c3, tr3)
                | (Raise e, c3, tr3) \<Rightarrow>
                    if isinstance e WDAEmptyResponseError then
                      session_fallback E session' session_id' e bundle_id c3 tr3
                    else (Raise e, c3, tr3))))"

text \<open>
  Nothing in the source bounds this recursion, so the model carries a budget: each nesting
  of \<^verbatim>\<open>session_id\<close> or \<^verbatim>\<open>session\<close> inside one of them uses one unit, and a call that
  would need more than it has comes to \<open>OutOfFuel\<close>. A read of a cached identifier needs
  none.
\<close>

primrec session_rec :: "env \<Rightarrow> nat \<Rightarrow> session_id_fn \<times> session_fn" where
  "session_rec E 0 =
     (\<lambda>c tr. if truthy (c_session_id c) then (Return (c_session_id c), c, tr)
             else (OutOfFuel, c, tr),
      \<lambda>bundle_id arguments environment alert_action c tr. (OutOfFuel, c, tr))"
| "session_rec E (Suc n) =
     (session_id_body E (snd (session_rec E n)) (fst (session_rec E n)),
      session_body E (snd (session_rec E n)) (fst (session_rec E n)))"

definition session_id :: "env \<Rightarrow> nat \<Rightarrow> session_id_fn" where
  "session_id E n = fst (session_rec E n)"

definition session :: "env \<Rightarrow> nat \<Rightarrow> session_fn" where
  "session E n = snd (session_rec E n)"

definition session_fetch ::
  "env \<Rightarrow> nat \<Rightarrow> string \<Rightarrow> string \<Rightarrow> json \<Rightarrow> nat option \<Rightarrow> client \<Rightarrow> trace
     \<Rightarrow> dict outcome \<times> client \<times> trace" where
  "session_fetch E n verb urlpath data tmo c tr =
     session_fetch_body E (session_id E n) verb urlpath data tmo c tr"

text \<open>\<^verbatim>\<open>_fetch\<close> as a whole.\<close>

definition fetch ::
  "env \<Rightarrow> nat \<Rightarrow> string \<Rightarrow> string \<Rightarrow> json \<Rightarrow> bool \<Rightarrow> nat option \<Rightarrow> client \<Rightarrow> trace
     \<Rightarrow> dict outcome \<times> client \<times> trace" where
  "fetch E n verb urlpath data with_session tmo c tr =
     (if with_session then session_fetch E n verb urlpath data tmo c tr
      else http_fetch E verb urlpath data tmo c tr)"

text \<open>The methods of \<^verbatim>\<open>_session_http\<close>.\<close>

definition session_http_get ::
  "env \<Rightarrow> nat \<Rightarrow> string \<Rightarrow> json \<Rightarrow> nat option \<Rightarrow> client \<Rightarrow> trace \<Rightarrow> dict outcome \<times> client \<times> trace"
  where
  "session_http_get E n urlpath data tmo c tr = fetch E n ''GET'' urlpath data True tmo c tr"

definition session_http_post ::
  "env \<Rightarrow> nat \<Rightarrow> string \<Rightarrow> json \<Rightarrow> nat option \<Rightarrow> client \<Rightarrow> trace \<Rightarrow> dict outcome \<times> client \<times> trace"
  where
  "session_http_post E n urlpath data tmo c tr = fetch E n ''POST'' urlpath data True tmo c tr"

definition session_http_delete ::
  "env \<Rightarrow> nat \<Rightarrow> string \<Rightarrow> json \<Rightarrow> nat option \<Rightarrow> client \<Rightarrow> trace \<Rightarrow> dict outcome \<times> client \<times> trace"
  where
  "session_http_delete E n urlpath data tmo c tr = fetch E n ''DELETE'' urlpath data True tmo c tr"

subsection \<open>Operations in a session\<close>

definition app_state :: "env \<Rightarrow> nat \<Rightarrow> json \<Rightarrow> client \<Rightarrow> trace \<Rightarrow> dict outcome \<times> client \<times> trace" where
  "app_state E n bundle_id c tr =
     session_http_post E n ''wda/apps/state'' (JObj [(''bundleId'', bundle_id)]) None c tr"

text \<open>
  \<^verbatim>\<open>close\<close>: the envelope of the DELETE, or \<^verbatim>\<open>None\<close> when the exception is swallowed.
\<close>

definition close :: "env \<Rightarrow> nat \<Rightarrow> client \<Rightarrow> trace \<Rightarrow> json outcome \<times> client \<times> trace" where
  "close E n c tr =
     (case session_http_delete E n '''' JNull None c tr of
        (Return res, c', tr') \<Rightarrow> (Return (JObj res), c', tr')
      | (OutOfFuel, c', tr') \<Rightarrow> (OutOfFuel, c', tr')
      | (Raise e, c', tr') \<Rightarrow>
          if isinstance e WDARequestError then
            (if \<not> (isinstance e WDAInvalidSessionIdError \<or> isinstance e WDAPossiblyCrashedError)
             then (Raise e, c', tr')
             else (Return JNull, c', tr'))
          else (Raise e, c', tr'))"

text \<open>\<^verbatim>\<open>__exit__\<close>, which returns \<^verbatim>\<open>None\<close> whatever \<^verbatim>\<open>close\<close> returned.\<close>

definition client_exit :: "env \<Rightarrow> nat \<Rightarrow> client \<Rightarrow> trace \<Rightarrow> json outcome \<times> client \<times> trace" where
  "client_exit E n c tr =
     (case close E n c tr of
        (Return closed, c', tr') \<Rightarrow> (Return JNull, c', tr')
      | (Raise e, c', tr') \<Rightarrow> (Raise e, c', tr')
      | (OutOfFuel, c', tr') \<Rightarrow> (OutOfFuel, c', tr'))"






subsection \<open>The alert watcher\<close>




text \<open>
  \<^verbatim>\<open>name in x\<close> for a string \<open>name\<close>: membership in a list, a key of a dictionary, a piece
  of a string; anything else is not iterable.
\<close>

fun substring_of :: "string \<Rightarrow> string \<Rightarrow> bool" where
  "substring_of b [] = (b = [])"
| "substring_of b (ch # s) = (take (length b) (ch # s) = b \<or> substring_of b s)"







section \<open>Reading outcomes and traces\<close>


text \<open>
  \<open>adds_only P tr tr'\<close>: the trace \<open>tr'\<close> is \<open>tr\<close> with further events, each of which
  satisfies \<open>P\<close>.
\<close>

definition adds_only :: "(event \<Rightarrow> bool) \<Rightarrow> trace \<Rightarrow> trace \<Rightarrow> bool" where
  "adds_only P tr tr' = (\<exists>added. tr' = tr @ added \<and> list_all P added)"

text \<open>
  Kinds of events: a request sent; a call of a handler; a sleep or a request without a
  body, which is all that the status probe and the unlocking add to a trace.
\<close>

fun is_sent :: "event \<Rightarrow> bool" where
  "is_sent (Sent r) = True"
| "is_sent ev = False"

fun is_called :: "event \<Rightarrow> bool" where
  "is_called (Called name h) = True"
| "is_called ev = False"

fun bodiless :: "event \<Rightarrow> bool" where
  "bodiless (Sent q) = (req_json q = JNull)"
| "bodiless (Slept d) = True"
| "bodiless (Called name h) = False"

text \<open>No handler is called and the registry of the client stays as it is.\<close>

definition quiet :: "client \<Rightarrow> trace \<Rightarrow> client \<Rightarrow> trace \<Rightarrow> bool" where
  "quiet c tr c' tr' = (c_callbacks c' = c_callbacks c \<and> adds_only (\<lambda>ev. \<not> is_called ev) tr tr')"

text \<open>
  The request by which \<^verbatim>\<open>session()\<close>, called without arguments, creates a session: the
  payload with no capabilities, posted to \<^verbatim>\<open>session\<close>.
\<close>

definition empty_capabilities :: json where
  "empty_capabilities = JObj [(''capabilities'', JObj []), (''desiredCapabilities'', JObj [])]"

definition creation_request :: "env \<Rightarrow> client \<Rightarrow> http_request" where
  "creation_request E c = the_request ''POST'' (plain_url E c ''session'') empty_capabilities None"

section \<open>The retry policy as the specification words it\<close>

text \<open>
  To be compared with the decorator of the source: up to three attempts, a further attempt
  only after an exception of the one class, a delay before the second and before the
  third attempt, and whatever the third attempt comes to is the outcome.
\<close>

definition three_attempts ::
  "(client \<Rightarrow> trace \<Rightarrow> json outcome \<times> client \<times> trace) \<Rightarrow> exc_class \<Rightarrow> nat \<Rightarrow> nat
     \<Rightarrow> client \<Rightarrow> trace \<Rightarrow> json outcome \<times> client \<times> trace" where
  "three_attempts f k first_delay second_delay c tr =
     (case f c tr of
        (Raise e1, c1, tr1) \<Rightarrow>
          if isinstance e1 k then
            (case f c1 (tr1 @ [Slept first_delay]) of
               (Raise e2, c2, tr2) \<Rightarrow>
                 if isinstance e2 k then f c2 (tr2 @ [Slept second_delay])
                 else (Raise e2, c2, tr2)
             | (Return r, c2, tr2) \<Rightarrow> (Return r, c2, tr2)
             | (OutOfFuel, c2, tr2) \<Rightarrow> (OutOfFuel, c2, tr2))
          else (Raise e1, c1, tr1)
      | (Return r, c1, tr1) \<Rightarrow> (Return r, c1, tr1)
      | (OutOfFuel, c1, tr1) \<Rightarrow> (OutOfFuel, c1, tr1))"

section \<open>Sample environments\<close>

text \<open>
  Concrete values for the examples that follow the theorems. A scripted remote answers
  the requests in turn, whatever they are, and refuses the connection when its answers
  are used up; another gives one and the same answer to every request. The sample
  \<open>urljoin\<close> appends the reference to the base, as \<^verbatim>\<open>urllib\<close> does for a base that ends in
  a slash and a plain relative path; the sample predicates look at the error code and
  the message, as section 4.2 of the specification describes the predicates of
  \<^verbatim>\<open>wda/exceptions.py\<close>.
\<close>

definition ok_response :: "string \<Rightarrow> json \<Rightarrow> http_result" where
  "ok_response body j = Response \<lparr>status_code = 200, body_text = body, body_json = Some j\<rparr>"

definition empty_response :: http_result where
  "empty_response = Response \<lparr>status_code = 200, body_text = '''', body_json = None\<rparr>"

definition scripted :: "http_result list \<Rightarrow> trace \<Rightarrow> http_request \<Rightarrow> http_result" where
  "scripted answers tr req =
     (let i = length (filter is_sent tr)
      in if i < length answers then answers ! i else RequestException ''connection refused'')"


definition sample_check :: "exc_class \<Rightarrow> dict \<Rightarrow> bool" where
  "sample_check k v =
     (case k of
        WDAInvalidSessionIdError \<Rightarrow> dict_get v ''error'' = JStr ''invalid session id''
      | WDAPossiblyCrashedError \<Rightarrow>
          (case dict_get v ''message'' of JStr m \<Rightarrow> substring_of ''possibly crashed'' m | _ \<Rightarrow> False)
      | WDAKeyboardNotPresentError \<Rightarrow> dict_get v ''error'' = JStr ''invalid element state''
      | WDAStaleElementReferenceError \<Rightarrow> dict_get v ''error'' = JStr ''stale element reference''
      | WDAUnknownError \<Rightarrow> dict_get v ''error'' = JStr ''unknown error''
      | _ \<Rightarrow> False)"

definition local_env :: "(trace \<Rightarrow> http_request \<Rightarrow> http_result) \<Rightarrow> env" where
  "local_env t =
     \<lparr>transport = t, urlparse_geturl = (\<lambda>u. u), urljoin = (\<lambda>base ref. base @ ref),
      check = sample_check, str_other = (\<lambda>v. ''?'')\<rparr>"


definition unbound_client :: client where
  "unbound_client =
     \<lparr>c_wda_url = ''http://localhost:8100/'', c_session_id = JNull, c_timeout = 30,
      c_callbacks = []\<rparr>"

definition second_client :: client where
  "second_client =
     \<lparr>c_wda_url = ''http://localhost:8100/'', c_session_id = JStr ''S2'', c_timeout = 30,
      c_callbacks = []\<rparr>"

definition observed_client :: client where
  "observed_client =
     \<lparr>c_wda_url = ''http://localhost:8100/'', c_session_id = JStr ''S1'', c_timeout = 30,
      c_callbacks = [(Callback_HTTP_REQUEST_BEFORE, [0]), (Callback_HTTP_REQUEST_AFTER, [1]),
                     (Callback_ERROR, [2])]\<rparr>"

text \<open>Envelopes of remote errors, each with the text of its body.\<close>

definition crashed_envelope :: dict where
  "crashed_envelope =
     [(''value'', JObj [(''error'', JStr ''unknown error''),
                        (''message'', JStr ''Application is possibly crashed''),
                        (''traceback'', JStr ''(null)'')]),
      (''sessionId'', JStr ''S1''),
      (''status'', JInt 13)]"

definition crashed_body :: string where
  "crashed_body = ''{\"value\": {\"error\": \"unknown error\", \"message\": \"Application is possibly crashed\", \"traceback\": \"(null)\"}, \"sessionId\": \"S1\", \"status\": 13}''"

definition no_alert_envelope :: dict where
  "no_alert_envelope =
     [(''value'', JObj [(''error'', JStr ''no such alert''),
                        (''message'', JStr ''no alert is open''),
                        (''traceback'', JStr ''(null)'')]),
      (''sessionId'', JStr ''S1''),
      (''status'', JInt 27)]"

definition no_alert_body :: string where
  "no_alert_body = ''{\"value\": {\"error\": \"no such alert\", \"message\": \"no alert is open\", \"traceback\": \"(null)\"}, \"sessionId\": \"S1\", \"status\": 27}''"





text \<open>
  Answers to the status probe, with a session and without one; to the question whether
  the device is locked; to the creation of a session; to the query of the state of an
  application; and to the DELETE of the session \<^verbatim>\<open>S2\<close>.
\<close>

definition status_envelope :: dict where
  "status_envelope = [(''value'', JObj [(''ready'', JBool True)]), (''sessionId'', JStr ''S1'')]"

definition status_body_text :: string where
  "status_body_text = ''{\"value\": {\"ready\": true}, \"sessionId\": \"S1\"}''"

definition idle_envelope :: dict where
  "idle_envelope = [(''value'', JObj [(''ready'', JBool True)]), (''sessionId'', JNull)]"

definition idle_body :: string where
  "idle_body = ''{\"value\": {\"ready\": true}, \"sessionId\": null}''"

definition unlocked_envelope :: dict where
  "unlocked_envelope = [(''value'', JBool False), (''sessionId'', JNull)]"

definition unlocked_body :: string where
  "unlocked_body = ''{\"value\": false, \"sessionId\": null}''"

definition created_envelope :: dict where
  "created_envelope =
     [(''value'', JObj [(''sessionId'', JStr ''S2''), (''capabilities'', JObj [])]),
      (''sessionId'', JStr ''S2'')]"

definition created_body :: string where
  "created_body = ''{\"value\": {\"sessionId\": \"S2\", \"capabilities\": {}}, \"sessionId\": \"S2\"}''"

definition foreground_envelope :: dict where
  "foreground_envelope = [(''value'', JInt 4), (''sessionId'', JStr ''S2'')]"

definition foreground_body :: string where
  "foreground_body = ''{\"value\": 4, \"sessionId\": \"S2\"}''"

definition closed_envelope :: dict where
  "closed_envelope = [(''value'', JNull), (''sessionId'', JStr ''S2'')]"

definition closed_body :: string where
  "closed_body = ''{\"value\": null, \"sessionId\": \"S2\"}''"





text \<open>The payload of \<^verbatim>\<open>session("com.apple.Preferences")\<close>.\<close>

definition preferences_payload :: json where
  "preferences_payload =
     JObj [(''capabilities'',
            JObj [(''alwaysMatch'',
                   JObj [(''bundleId'', JStr ''com.apple.Preferences''),
                         (''arguments'', JList []),
                         (''environment'', JObj []),
                         (''shouldWaitForQuiescence'', JBool False)])]),
           (''desiredCapabilities'',
            JObj [(''bundleId'', JStr ''com.apple.Preferences''),
                  (''arguments'', JList []),
                  (''environment'', JObj []),
                  (''shouldWaitForQuiescence'', JBool False)])]"

section \<open>Properties\<close>

lemmas example_defs = local_env_def scripted_def ok_response_def sample_check_def the_request_def
  upper_def upper_char_def blank_def ascii_space_def dict_get_def dict_pop_def

subsection \<open>Dictionaries\<close>

lemma map_of_setdefault_other:
  "k \<noteq> k' \<Longrightarrow> map_of (setdefault d k' v) k = map_of d k"
  by (simp add: setdefault_def map_add_def split: option.splits)

lemma map_of_dict_pop: "map_of (dict_pop d k) k = None"
  by (induction d) (auto simp: dict_pop_def)

subsection \<open>Classification of a remote error\<close>

text \<open>
  C1 (as amended). When the remote answers with an envelope whose value is a dictionary
  with a truthy \<^verbatim>\<open>error\<close>, \<^verbatim>\<open>_fetch\<close> raises exactly one exception. Its class is the first of
  invalid session, possibly crashed, keyboard not present, stale element and unknown
  whose predicate holds of the value without its \<^verbatim>\<open>traceback\<close>, and the generic request
  error when none holds. It carries the constant status 110 (\<^verbatim>\<open>Status.ERROR\<close>), not the
  status of the envelope, and the value without its \<^verbatim>\<open>traceback\<close>.
\<close>

theorem fetch_at_classifies_error:
  assumes "transport E tr (the_request verb url data tmo) = Response resp"
      and "status_code resp \<noteq> 502"
      and "\<not> blank (body_text resp)"
      and "body_json resp = Some (JObj retjson)"
      and "map_of retjson ''value'' = Some (JObj v)"
      and "truthy (dict_get v ''error'')"
  shows "fetch_at E verb url data tmo tr =
           (Raise (Exc
              (if check E WDAInvalidSessionIdError (dict_pop v ''traceback'')
                 then WDAInvalidSessionIdError
               else if check E WDAPossiblyCrashedError (dict_pop v ''traceback'')
                 then WDAPossiblyCrashedError
               else if check E WDAKeyboardNotPresentError (dict_pop v ''traceback'')
                 then WDAKeyboardNotPresentError
               else if check E WDAStaleElementReferenceError (dict_pop v ''traceback'')
                 then WDAStaleElementReferenceError
               else if check E WDAUnknownError (dict_pop v ''traceback'')
                 then WDAUnknownError
               else WDARequestError)
              [JInt 110, JObj (dict_pop v ''traceback'')]),
            tr @ [Sent (the_request verb url data tmo)])
         \<and> map_of (dict_pop v ''traceback'') ''traceback'' = None"
  using assms
  by (simp add: fetch_at_def Let_def getattr_def map_of_setdefault_other map_of_dict_pop
      classify_def request_error_kinds_def Status_ERROR_def)

text \<open>
  An instance: the value matches the predicate of the unknown error by its code and the
  predicate of the possibly crashed application by its message; the earlier class wins.
\<close>

theorem fetch_at_classifies_error_witness:
  "transport (local_env (scripted [ok_response crashed_body (JObj crashed_envelope)])) []
       (the_request ''GET'' ''http://localhost:8100/source'' JNull None)
     = Response \<lparr>status_code = 200, body_text = crashed_body,
                  body_json = Some (JObj crashed_envelope)\<rparr>
   \<and> \<not> blank crashed_body
   \<and> truthy (dict_get [(''error'', JStr ''unknown error''),
                        (''message'', JStr ''Application is possibly crashed''),
                        (''traceback'', JStr ''(null)'')] ''error'')
   \<and> fetch_at (local_env (scripted [ok_response crashed_body (JObj crashed_envelope)]))
        ''GET'' ''http://localhost:8100/source'' JNull None []
     = (Raise (Exc WDAPossiblyCrashedError
          [JInt 110, JObj [(''error'', JStr ''unknown error''),
                           (''message'', JStr ''Application is possibly crashed'')]]),
        [Sent \<lparr>req_verb = ''GET'', req_url = ''http://localhost:8100/source'', req_json = JNull,
               req_headers = [], req_timeout = None\<rparr>])"
proof -
  let ?E = "local_env (scripted [ok_response crashed_body (JObj crashed_envelope)])"
  let ?v = "[(''error'', JStr ''unknown error''),
             (''message'', JStr ''Application is possibly crashed''),
             (''traceback'', JStr ''(null)'')]"
  have h1: "transport ?E [] (the_request ''GET'' ''http://localhost:8100/source'' JNull None)
              = Response \<lparr>status_code = 200, body_text = crashed_body,
                           body_json = Some (JObj crashed_envelope)\<rparr>"
    by (simp add: example_defs)
  have h3: "\<not> blank crashed_body"
    by (simp add: crashed_body_def blank_def ascii_space_def)
  have h6: "truthy (dict_get ?v ''error'')"
    by (simp add: dict_get_def)
  have h5: "map_of crashed_envelope ''value'' = Some (JObj ?v)"
    by (simp add: crashed_envelope_def)
  from fetch_at_classifies_error [of ?E "[]" "''GET''" "''http://localhost:8100/source''" JNull None
      "\<lparr>status_code = 200, body_text = crashed_body, body_json = Some (JObj crashed_envelope)\<rparr>"
      crashed_envelope ?v, OF h1 _ _ _ h5 h6] h3
  have "fetch_at ?E ''GET'' ''http://localhost:8100/source'' JNull None []
     = (Raise (Exc WDAPossiblyCrashedError
          [JInt 110, JObj [(''error'', JStr ''unknown error''),
                           (''message'', JStr ''Application is possibly crashed'')]]),
        [Sent \<lparr>req_verb = ''GET'', req_url = ''http://localhost:8100/source'', req_json = JNull,
               req_headers = [], req_timeout = None\<rparr>])"
    by (simp add: example_defs)
  with h1 h3 h6 show ?thesis by blast
qed

text \<open>
  C1 as the specification states it fails: the envelope has the status 27 and no predicate
  matches its value, and the generic request error that is raised carries 110, not 27.
\<close>

theorem fetch_at_remote_status_counterexample:
  "map_of no_alert_envelope ''status'' = Some (JInt 27)
   \<and> fst (fetch_at (local_env (scripted [ok_response no_alert_body (JObj no_alert_envelope)]))
        ''GET'' ''http://localhost:8100/session/S1/alert/text'' JNull None [])
     = Raise (Exc WDARequestError
          [JInt 110, JObj [(''error'', JStr ''no such alert''),
                           (''message'', JStr ''no alert is open'')]])
   \<and> fst (fetch_at (local_env (scripted [ok_response no_alert_body (JObj no_alert_envelope)]))
        ''GET'' ''http://localhost:8100/session/S1/alert/text'' JNull None [])
     \<noteq> Raise (Exc WDARequestError
          [JInt 27, JObj [(''error'', JStr ''no such alert''),
                          (''message'', JStr ''no alert is open'')]])"
  by (simp add: fetch_at_def Let_def getattr_def setdefault_def classify_def
      request_error_kinds_def Status_ERROR_def no_alert_envelope_def no_alert_body_def
      example_defs)

subsection \<open>Single requests\<close>

lemma fetch_at_trace: "snd (fetch_at E verb url data tmo tr) = tr @ [Sent (the_request verb url data tmo)]"
  by (simp add: fetch_at_def Let_def split: http_result.splits option.splits json.splits
      sum.splits)

lemma fetch_at_sent:
  "fetch_at E verb url data tmo tr = (r, tr') \<Longrightarrow> tr' = tr @ [Sent (the_request verb url data tmo)]"
  using fetch_at_trace [of E verb url data tmo tr] by simp

lemma session_id_cached:
  "truthy (c_session_id c) \<Longrightarrow> session_id E n c tr = (Return (c_session_id c), c, tr)"
  by (cases n) (simp_all add: session_id_def session_id_body_def)

subsection \<open>Undecodable bodies and network faults\<close>




subsection \<open>The base URL\<close>

text \<open>
  C8. A client made from a URL that does not end in a slash is the client made from that
  URL with a slash added, so both derive the same URL for every path, with and without a
  session, and every request through \<^verbatim>\<open>_fetch\<close> comes to the same.
\<close>

theorem base_url_trailing_slash:
  assumes "\<not> endswith_slash u"
  shows "BaseClient_init E u sid = BaseClient_init E (u @ ''/'') sid
         \<and> plain_url E (BaseClient_init E u sid) urlpath
             = plain_url E (BaseClient_init E (u @ ''/'') sid) urlpath
         \<and> session_url E (BaseClient_init E u sid) s urlpath
             = session_url E (BaseClient_init E (u @ ''/'') sid) s urlpath
         \<and> fetch E n verb urlpath data with_session tmo (BaseClient_init E u sid) tr
             = fetch E n verb urlpath data with_session tmo (BaseClient_init E (u @ ''/'') sid) tr"
proof -
  have "BaseClient_init E u sid = BaseClient_init E (u @ ''/'') sid"
    using assms by (simp add: BaseClient_init_def endswith_slash_def)
  then show ?thesis by simp
qed

theorem base_url_trailing_slash_witness:
  "\<not> endswith_slash ''http://localhost:8100''
   \<and> plain_url (local_env (scripted []))
        (BaseClient_init (local_env (scripted [])) ''http://localhost:8100'' JNull) ''status''
      = ''http://localhost:8100/status''
   \<and> plain_url (local_env (scripted []))
        (BaseClient_init (local_env (scripted [])) ''http://localhost:8100/'' JNull) ''status''
      = ''http://localhost:8100/status''
   \<and> session_url (local_env (scripted []))
        (BaseClient_init (local_env (scripted [])) ''http://localhost:8100'' JNull)
        (JStr ''S1'') ''wda/keys''
      = ''http://localhost:8100/session/S1/wda/keys''
   \<and> session_url (local_env (scripted []))
        (BaseClient_init (local_env (scripted [])) ''http://localhost:8100/'' JNull)
        (JStr ''S1'') ''wda/keys''
      = ''http://localhost:8100/session/S1/wda/keys''"
proof -
  have h: "\<not> endswith_slash ''http://localhost:8100''"
    by (simp add: endswith_slash_def)
  have a: "plain_url (local_env (scripted []))
        (BaseClient_init (local_env (scripted [])) ''http://localhost:8100/'' JNull) ''status''
      = ''http://localhost:8100/status''"
    by (simp add: plain_url_def BaseClient_init_def endswith_slash_def local_env_def)
  have b: "session_url (local_env (scripted []))
        (BaseClient_init (local_env (scripted [])) ''http://localhost:8100/'' JNull)
        (JStr ''S1'') ''wda/keys''
      = ''http://localhost:8100/session/S1/wda/keys''"
    by (simp add: session_url_def BaseClient_init_def endswith_slash_def local_env_def)
  from base_url_trailing_slash [OF h, of "local_env (scripted [])" JNull "''status''"
      "JStr ''S1''"]
    base_url_trailing_slash [OF h, of "local_env (scripted [])" JNull "''wda/keys''"
      "JStr ''S1''"] a b h
  show ?thesis by simp
qed

lemmas run_defs = session_http_delete_def session_http_get_def session_http_post_def fetch_def
  session_fetch_def session_fetch_body_def session_id_def session_def session_url_def plain_url_def
  fetch_at_def Let_def getattr_def setdefault_def classify_def request_error_kinds_def
  Status_ERROR_def http_fetch_def http_get_def http_post_def isinstance_def is_subclass_def

subsection \<open>Closing a session\<close>



subsection \<open>Retry\<close>

lemma retry_internal_three:
  "retry_internal f k 3 d j c tr = three_attempts f k d (d + j) c tr"
  by (simp add: eval_nat_numeral three_attempts_def split: prod.splits outcome.splits)






subsection \<open>The alert watcher\<close>








subsection \<open>What a call adds to the trace\<close>

lemma adds_only_refl: "adds_only P tr tr"
  by (simp add: adds_only_def)

lemma adds_only_trans: "adds_only P a b \<Longrightarrow> adds_only P b c \<Longrightarrow> adds_only P a c"
  by (auto simp: adds_only_def)

lemma adds_only_snoc: "adds_only P a b \<Longrightarrow> P ev \<Longrightarrow> adds_only P a (b @ [ev])"
  by (auto simp: adds_only_def)

lemma adds_only_mono: "adds_only P a b \<Longrightarrow> (\<And>ev. P ev \<Longrightarrow> Q ev) \<Longrightarrow> adds_only Q a b"
  by (auto simp: adds_only_def list_all_iff)

lemma adds_only_none:
  "adds_only P a b \<Longrightarrow> \<not> P x \<Longrightarrow> filter (\<lambda>ev. ev = x) (drop (length a) b) = []"
  by (auto simp: adds_only_def list_all_iff filter_empty_conv)

lemma http_fetch_sent:
  "http_fetch E verb urlpath data tmo c tr = (r, c', tr') \<Longrightarrow>
     c' = c \<and> tr' = tr @ [Sent (the_request verb (plain_url E c urlpath) data tmo)]"
  by (auto simp: http_fetch_def split: prod.splits dest: fetch_at_sent)

lemma retry_internal_keeps:
  assumes step: "\<And>c tr r c' tr'. f c tr = (r, c', tr') \<Longrightarrow> I c' = I c \<and> adds_only P tr tr'"
      and sleep: "\<And>d. P (Slept d)"
  shows "retry_internal f k n d j c tr = (r, c', tr') \<Longrightarrow> I c' = I c \<and> adds_only P tr tr'"
proof (induction n arbitrary: d c tr)
  case 0
  then show ?case by (simp add: adds_only_refl)
next
  case (Suc n)
  obtain r1 c1 tr1 where f: "f c tr = (r1, c1, tr1)"
    by (cases "f c tr") auto
  from step [OF f] have one: "I c1 = I c" "adds_only P tr tr1"
    by simp_all
  show ?case
  proof (cases "\<exists>e. r1 = Raise e \<and> isinstance e k \<and> n \<noteq> 0")
    case True
    then obtain e where e: "r1 = Raise e" "isinstance e k" "n \<noteq> 0"
      by blast
    from Suc.prems f e
    have "retry_internal f k n (d + j) j c1 (tr1 @ [Slept d]) = (r, c', tr')"
      by simp
    from Suc.IH [OF this] have "I c' = I c1" "adds_only P (tr1 @ [Slept d]) tr'"
      by simp_all
    with one show ?thesis
      using adds_only_trans [OF adds_only_snoc [OF one(2) sleep]] by simp
  next
    case False
    with Suc.prems f have "(r, c', tr') = (r1, c1, tr1)"
      by (cases r1) (auto split: if_splits)
    with one show ?thesis by simp
  qed
qed


lemma quiet_refl: "quiet c tr c tr"
  by (simp add: quiet_def adds_only_refl)

lemma quiet_trans: "quiet c tr c1 tr1 \<Longrightarrow> quiet c1 tr1 c2 tr2 \<Longrightarrow> quiet c tr c2 tr2"
  by (auto simp: quiet_def intro: adds_only_trans)

lemma quiet_trace: "quiet c tr c1 tr1 \<Longrightarrow> quiet c' tr1 c2 tr2 \<Longrightarrow> quiet c tr c1 tr2"
  by (auto simp: quiet_def intro: adds_only_trans)

lemma quiet_session_id: "quiet c tr c1 tr1 \<Longrightarrow> quiet c tr (c1\<lparr>c_session_id := sid\<rparr>) tr1"
  by (simp add: quiet_def)

lemma fetch_at_quiet: "fetch_at E verb url data tmo tr = (r, tr') \<Longrightarrow> quiet c tr c tr'"
  by (auto simp: quiet_def adds_only_def dest: fetch_at_sent)

lemma http_fetch_quiet:
  "http_fetch E verb urlpath data tmo c tr = (r, c', tr') \<Longrightarrow> quiet c tr c' tr'"
  by (auto simp: quiet_def adds_only_def dest: http_fetch_sent)

lemma retry_internal_quiet:
  assumes "\<And>c tr r c' tr'. f c tr = (r, c', tr') \<Longrightarrow> quiet c tr c' tr'"
  shows "retry_internal f k n d j c tr = (r, c', tr') \<Longrightarrow> quiet c tr c' tr'"
  using retry_internal_keeps [of f c_callbacks "\<lambda>ev. \<not> is_called ev" k n d j c tr r c' tr'] assms
  by (simp add: quiet_def)

lemma status_body_quiet: "status_body E c tr = (r, c', tr') \<Longrightarrow> quiet c tr c' tr'"
  by (auto simp: status_body_def http_get_def split: prod.splits outcome.splits option.splits
      json.splits dest: http_fetch_quiet)

lemma status_quiet: "status E c tr = (r, c', tr') \<Longrightarrow> quiet c tr c' tr'"
  unfolding status_def by (rule retry_internal_quiet) (rule status_body_quiet)

lemma locked_quiet: "locked E c tr = (r, c', tr') \<Longrightarrow> quiet c tr c' tr'"
  by (auto simp: locked_def http_get_def split: prod.splits outcome.splits sum.splits
      dest: http_fetch_quiet)

lemma unlock_quiet: "unlock E c tr = (r, c', tr') \<Longrightarrow> quiet c tr c' tr'"
  by (auto simp: unlock_def http_post_def dest: http_fetch_quiet)

lemma ensure_unlocked_quiet: "ensure_unlocked E c tr = (r, c', tr') \<Longrightarrow> quiet c tr c' tr'"
  by (auto simp: ensure_unlocked_def split: prod.splits outcome.splits if_splits
      dest!: locked_quiet unlock_quiet intro: quiet_trans)

lemma session_fetch_body_quiet:
  assumes sid: "\<And>c tr r c' tr'. session_id' c tr = (r, c', tr') \<Longrightarrow> quiet c tr c' tr'"
  shows "session_fetch_body E session_id' verb urlpath data tmo c tr = (r, c', tr')
           \<Longrightarrow> quiet c tr c' tr'"
proof -
  assume run: "session_fetch_body E session_id' verb urlpath data tmo c tr = (r, c', tr')"
  obtain r1 c1 tr1 where s: "session_id' c tr = (r1, c1, tr1)"
    by (cases "session_id' c tr") auto
  note q1 = sid [OF s]
  show ?thesis
  proof (cases r1)
    case (Return sidv)
    obtain r2 tr2 where f: "fetch_at E verb (session_url E c1 sidv urlpath) data tmo tr1 = (r2, tr2)"
      by (cases "fetch_at E verb (session_url E c1 sidv urlpath) data tmo tr1") auto
    from run s Return f have "c' = c1" "tr' = tr2"
      by (simp_all add: session_fetch_body_def)
    with q1 fetch_at_quiet [OF f, of c1] show ?thesis
      by (auto intro: quiet_trans)
  next
    case (Raise e)
    with run s q1 show ?thesis by (simp add: session_fetch_body_def)
  next
    case OutOfFuel
    with run s q1 show ?thesis by (simp add: session_fetch_body_def)
  qed
qed

lemma session_id_body_quiet:
  assumes sess: "\<And>b a e al c tr r c' tr'. session' b a e al c tr = (r, c', tr') \<Longrightarrow> quiet c tr c' tr'"
      and sid: "\<And>c tr r c' tr'. session_id' c tr = (r, c', tr') \<Longrightarrow> quiet c tr c' tr'"
  shows "session_id_body E session' session_id' c tr = (r, c', tr') \<Longrightarrow> quiet c tr c' tr'"
proof -
  assume run: "session_id_body E session' session_id' c tr = (r, c', tr')"
  show ?thesis
  proof (cases "truthy (c_session_id c)")
    case True
    with run show ?thesis by (simp add: session_id_body_def quiet_refl)
  next
    case False
    obtain r1 c1 tr1 where st: "status E c tr = (r1, c1, tr1)"
      by (cases "status E c tr") auto
    note q1 = status_quiet [OF st]
    show ?thesis
    proof (cases "\<exists>stv cur. r1 = Return stv \<and> subscript stv ''sessionId'' = Inr cur \<and> \<not> truthy cur")
      case True
      then obtain stv cur where cur: "r1 = Return stv" "subscript stv ''sessionId'' = Inr cur"
        "\<not> truthy cur"
        by blast
      obtain r2 c2 tr2 where se: "session' JNull JNull JNull JNull c1 tr1 = (r2, c2, tr2)"
        by (cases "session' JNull JNull JNull JNull c1 tr1") auto
      note q2 = quiet_trans [OF q1 sess [OF se]]
      show ?thesis
      proof (cases r2)
        case (Return fresh)
        obtain r3 c3 tr3 where si: "session_id' fresh tr2 = (r3, c3, tr3)"
          by (cases "session_id' fresh tr2") auto
        from run False st cur se Return si have "c' = c2" "tr' = tr3"
          by (simp_all add: session_id_body_def)
        with quiet_trace [OF q2 sid [OF si]] show ?thesis by simp
      next
        case (Raise e)
        with run False st cur se q2 show ?thesis by (simp add: session_id_body_def)
      next
        case OutOfFuel
        with run False st cur se q2 show ?thesis by (simp add: session_id_body_def)
      qed
    next
      case other: False
      from run False st other have "tr' = tr1 \<and> (c' = c1 \<or> (\<exists>s. c' = c1\<lparr>c_session_id := s\<rparr>))"
        by (auto simp: session_id_body_def split: outcome.splits sum.splits if_splits)
      with q1 show ?thesis
        by (auto intro: quiet_session_id)
    qed
  qed
qed

lemma session_fallback_quiet:
  assumes sess: "\<And>b a e al c tr r c' tr'. session' b a e al c tr = (r, c', tr') \<Longrightarrow> quiet c tr c' tr'"
      and sid: "\<And>c tr r c' tr'. session_id' c tr = (r, c', tr') \<Longrightarrow> quiet c tr c' tr'"
  shows "session_fallback E session' session_id' e bundle_id c tr = (r, c', tr')
           \<Longrightarrow> quiet c tr c' tr'"
proof -
  assume run: "session_fallback E session' session_id' e bundle_id c tr = (r, c', tr')"
  obtain r1 c1 tr1 where se: "session' JNull JNull JNull JNull c tr = (r1, c1, tr1)"
    by (cases "session' JNull JNull JNull JNull c tr") auto
  note q1 = sess [OF se]
  show ?thesis
  proof (cases r1)
    case (Return fresh)
    obtain r2 c2 tr2 where f: "session_fetch_body E session_id' ''POST'' ''wda/apps/state''
        (JObj [(''bundleId'', bundle_id)]) None fresh tr1 = (r2, c2, tr2)"
      by (cases "session_fetch_body E session_id' ''POST'' ''wda/apps/state''
        (JObj [(''bundleId'', bundle_id)]) None fresh tr1") auto
    from run se Return f have "c' = c1" "tr' = tr2"
      by (auto simp: session_fallback_def split: outcome.splits sum.splits if_splits)
    with quiet_trace [OF q1 session_fetch_body_quiet [OF sid f]] show ?thesis by simp
  next
    case (Raise e')
    with run se q1 show ?thesis by (simp add: session_fallback_def)
  next
    case OutOfFuel
    with run se q1 show ?thesis by (simp add: session_fallback_def)
  qed
qed

lemma session_body_quiet:
  assumes sess: "\<And>b a e al c tr r c' tr'. session' b a e al c tr = (r, c', tr') \<Longrightarrow> quiet c tr c' tr'"
      and sid: "\<And>c tr r c' tr'. session_id' c tr = (r, c', tr') \<Longrightarrow> quiet c tr c' tr'"
  shows "session_body E session' session_id' b a e al c tr = (r, c', tr') \<Longrightarrow> quiet c tr c' tr'"
proof -
  assume run: "session_body E session' session_id' b a e al c tr = (r, c', tr')"
  show ?thesis
  proof (cases "session_payload b a e al")
    case (Inl x)
    with run show ?thesis by (simp add: session_body_def quiet_refl)
  next
    case (Inr payload)
    obtain r1 c1 tr1 where u: "ensure_unlocked E c tr = (r1, c1, tr1)"
      by (cases "ensure_unlocked E c tr") auto
    note q1 = ensure_unlocked_quiet [OF u]
    show ?thesis
    proof (cases r1)
      case (Return unlocked)
      obtain r2 c2 tr2 where p: "http_post E ''session'' payload None c1 tr1 = (r2, c2, tr2)"
        by (cases "http_post E ''session'' payload None c1 tr1") auto
      from p have "quiet c1 tr1 c2 tr2"
        by (auto simp: http_post_def dest: http_fetch_quiet)
      note q2 = quiet_trans [OF q1 this]
      show ?thesis
      proof (cases "\<exists>x. r2 = Raise x \<and> isinstance x WDAEmptyResponseError")
        case True
        then obtain x where x: "r2 = Raise x" "isinstance x WDAEmptyResponseError"
          by blast
        from run Inr u Return p x
        have "session_fallback E session' session_id' x b c2 tr2 = (r, c', tr')"
          by (simp add: session_body_def)
        from quiet_trans [OF q2 session_fallback_quiet [OF sess sid this]]
        show ?thesis by simp
      next
        case False
        with run Inr u Return p have "c' = c2" "tr' = tr2"
          by (auto simp: session_body_def split: outcome.splits sum.splits if_splits)
        with q2 show ?thesis by simp
      qed
    next
      case (Raise x)
      with run Inr u q1 show ?thesis by (simp add: session_body_def)
    next
      case OutOfFuel
      with run Inr u q1 show ?thesis by (simp add: session_body_def)
    qed
  qed
qed

lemma session_rec_quiet:
  "(\<forall>c tr r c' tr'. fst (session_rec E n) c tr = (r, c', tr') \<longrightarrow> quiet c tr c' tr')
   \<and> (\<forall>b a e al c tr r c' tr'.
        snd (session_rec E n) b a e al c tr = (r, c', tr') \<longrightarrow> quiet c tr c' tr')"
proof (induction n)
  case 0
  show ?case by (auto simp: quiet_refl split: if_splits)
next
  case (Suc n)
  have sid: "\<And>c tr r c' tr'. fst (session_rec E n) c tr = (r, c', tr') \<Longrightarrow> quiet c tr c' tr'"
    using Suc by blast
  have sess: "\<And>b a e al c tr r c' tr'.
      snd (session_rec E n) b a e al c tr = (r, c', tr') \<Longrightarrow> quiet c tr c' tr'"
    using Suc by blast
  show ?case
    using session_id_body_quiet [of "snd (session_rec E n)" "fst (session_rec E n)" E, OF sess sid]
      session_body_quiet [of "snd (session_rec E n)" "fst (session_rec E n)" E, OF sess sid]
    by simp
qed

lemma session_id_quiet: "session_id E n c tr = (r, c', tr') \<Longrightarrow> quiet c tr c' tr'"
  using session_rec_quiet [of E n] by (simp add: session_id_def)

lemma session_quiet: "session E n b a e al c tr = (r, c', tr') \<Longrightarrow> quiet c tr c' tr'"
  using session_rec_quiet [of E n] by (simp add: session_def)

lemma fetch_quiet:
  "fetch E n verb urlpath data with_session tmo c tr = (r, c', tr') \<Longrightarrow> quiet c tr c' tr'"
  by (cases with_session)
    (auto simp: fetch_def session_fetch_def
      dest: http_fetch_quiet session_fetch_body_quiet [OF session_id_quiet, rotated])

subsection \<open>The callback registry\<close>

text \<open>
  C9 (as amended). The registry of callbacks is created empty by the constructor and
  handed on to the client that \<^verbatim>\<open>session\<close> returns, and that is all: no request through
  \<^verbatim>\<open>_fetch\<close> calls a handler, whatever is registered under the event names. A request adds
  requests sent and sleeps to the trace of effects and nothing else, and leaves the
  registry of the client as it was.
\<close>

theorem fetch_calls_no_handler:
  assumes "fetch E n verb urlpath data with_session tmo c tr = (r, c', tr')"
  shows "c_callbacks c' = c_callbacks c
         \<and> (\<exists>added. tr' = tr @ added \<and> (\<forall>name h. Called name h \<notin> set added))
         \<and> c_callbacks (BaseClient_init E url sid) = []
         \<and> (\<forall>res cl. new_client E c res = Inr cl \<longrightarrow> c_callbacks cl = c_callbacks c)"
proof -
  from fetch_quiet [OF assms] obtain added
    where added: "c_callbacks c' = c_callbacks c" "tr' = tr @ added"
      "list_all (\<lambda>ev. \<not> is_called ev) added"
    by (auto simp: quiet_def adds_only_def)
  have "Called name h \<notin> set added" for name h
    using added(3) by (auto simp: list_all_iff)
  moreover have "c_callbacks (BaseClient_init E url sid) = []"
    by (simp add: BaseClient_init_def Let_def)
  moreover have "\<forall>res cl. new_client E c res = Inr cl \<longrightarrow> c_callbacks cl = c_callbacks c"
    by (auto simp: new_client_def split: sum.splits)
  ultimately show ?thesis using added(1,2) by blast
qed

text \<open>An instance: three handlers are registered and the status is asked for.\<close>

theorem fetch_calls_no_handler_witness:
  "fetch (local_env (scripted [ok_response status_body_text (JObj status_envelope)])) 0
      ''GET'' ''status'' JNull False None observed_client []
     = (Return (status_envelope @ [(''status'', JInt 0)]), observed_client,
        [Sent \<lparr>req_verb = ''GET'', req_url = ''http://localhost:8100/status'', req_json = JNull,
               req_headers = [], req_timeout = None\<rparr>])
   \<and> c_callbacks observed_client
       = [(''::http-request-before'', [0]), (''::http-request-after'', [1]), (''::error'', [2])]
   \<and> (\<exists>added. [Sent \<lparr>req_verb = ''GET'', req_url = ''http://localhost:8100/status'',
                     req_json = JNull, req_headers = [], req_timeout = None\<rparr>] = [] @ added
        \<and> (\<forall>name h. Called name h \<notin> set added))"
proof -
  let ?E = "local_env (scripted [ok_response status_body_text (JObj status_envelope)])"
  have run: "fetch ?E 0 ''GET'' ''status'' JNull False None observed_client []
     = (Return (status_envelope @ [(''status'', JInt 0)]), observed_client,
        [Sent \<lparr>req_verb = ''GET'', req_url = ''http://localhost:8100/status'', req_json = JNull,
               req_headers = [], req_timeout = None\<rparr>])"
    by (simp add: run_defs example_defs observed_client_def status_envelope_def
        status_body_text_def)
  have reg: "c_callbacks observed_client
       = [(''::http-request-before'', [0]), (''::http-request-after'', [1]), (''::error'', [2])]"
    by (simp add: observed_client_def Callback_HTTP_REQUEST_BEFORE_def
        Callback_HTTP_REQUEST_AFTER_def Callback_ERROR_def)
  from fetch_calls_no_handler [OF run] run reg show ?thesis by blast
qed

text \<open>
  C9 as the specification states it fails: handlers are registered for the request, the
  request is made and answered, and the trace of effects holds the request and no call
  of a handler.
\<close>

theorem fetch_skips_handlers_counterexample:
  "map_of (c_callbacks observed_client) Callback_HTTP_REQUEST_BEFORE = Some [0]
   \<and> map_of (c_callbacks observed_client) Callback_HTTP_REQUEST_AFTER = Some [1]
   \<and> snd (snd (fetch (local_env (scripted [ok_response status_body_text (JObj status_envelope)]))
        0 ''GET'' ''status'' JNull False None observed_client []))
     = [Sent \<lparr>req_verb = ''GET'', req_url = ''http://localhost:8100/status'', req_json = JNull,
              req_headers = [], req_timeout = None\<rparr>]
   \<and> Called Callback_HTTP_REQUEST_BEFORE 0
       \<notin> set (snd (snd (fetch (local_env (scripted
             [ok_response status_body_text (JObj status_envelope)]))
           0 ''GET'' ''status'' JNull False None observed_client [])))
   \<and> Called Callback_HTTP_REQUEST_AFTER 1
       \<notin> set (snd (snd (fetch (local_env (scripted
             [ok_response status_body_text (JObj status_envelope)]))
           0 ''GET'' ''status'' JNull False None observed_client [])))"
  by (simp add: run_defs example_defs observed_client_def status_envelope_def
      status_body_text_def Callback_HTTP_REQUEST_BEFORE_def Callback_HTTP_REQUEST_AFTER_def
      Callback_ERROR_def)

subsection \<open>Reading the session identifier\<close>

lemma session_id_Suc: "session_id E (Suc n) = session_id_body E (session E n) (session_id E n)"
  by (simp add: session_id_def session_def)

lemma session_Suc: "session E (Suc n) = session_body E (session E n) (session_id E n)"
  by (simp add: session_id_def session_def)

lemma adds_only_last:
  "adds_only P a b \<Longrightarrow> \<not> P x \<Longrightarrow>
     filter (\<lambda>ev. ev = x) (drop (length a) (b @ [x])) = [x]"
  by (auto simp: adds_only_def list_all_iff filter_empty_conv)

lemma status_body_bodiless:
  "status_body E c tr = (r, c', tr') \<Longrightarrow> id c' = id c \<and> adds_only bodiless tr tr'"
  by (auto simp: status_body_def http_get_def adds_only_def the_request_def
      split: prod.splits outcome.splits option.splits json.splits dest!: http_fetch_sent)

lemma status_bodiless:
  "status E c tr = (r, c', tr') \<Longrightarrow> c' = c \<and> adds_only bodiless tr tr'"
  using retry_internal_keeps [of "status_body E" id bodiless WDAEmptyResponseError 3 2000 0 c tr
      r c' tr'] status_body_bodiless
  by (simp add: status_def)

lemma locked_bodiless:
  "locked E c tr = (r, c', tr') \<Longrightarrow> c' = c \<and> adds_only bodiless tr tr'"
  by (auto simp: locked_def http_get_def adds_only_def the_request_def
      split: prod.splits outcome.splits sum.splits dest!: http_fetch_sent)

lemma unlock_bodiless:
  "unlock E c tr = (r, c', tr') \<Longrightarrow> c' = c \<and> adds_only bodiless tr tr'"
  by (auto simp: unlock_def http_post_def adds_only_def the_request_def dest!: http_fetch_sent)

lemma ensure_unlocked_bodiless:
  "ensure_unlocked E c tr = (r, c', tr') \<Longrightarrow> c' = c \<and> adds_only bodiless tr tr'"
  by (auto simp: ensure_unlocked_def split: prod.splits outcome.splits if_splits
      dest!: locked_bodiless unlock_bodiless intro: adds_only_trans)

lemma creation_request_body: "\<not> bodiless (Sent (creation_request E c))"
  by (simp add: creation_request_def the_request_def empty_capabilities_def)

lemma session_creates:
  assumes "ensure_unlocked E c tr = (Return (), c2, tr2)"
      and "http_post E ''session'' empty_capabilities None c tr2 = (Return res, c3, tr3)"
      and "getattr res ''sessionId'' = Inr sid"
  shows "session E (Suc n) JNull JNull JNull JNull c tr
           = (Return ((BaseClient_init E (c_wda_url c) sid)
                        \<lparr>c_timeout := c_timeout c, c_callbacks := c_callbacks c\<rparr>), c, tr3)
         \<and> tr3 = tr2 @ [Sent (creation_request E c)]
         \<and> adds_only bodiless tr tr2"
proof -
  from ensure_unlocked_bodiless [OF assms(1)] have c2: "c2 = c" "adds_only bodiless tr tr2"
    by simp_all
  from assms(2) have c3: "c3 = c" "tr3 = tr2 @ [Sent (creation_request E c)]"
    by (auto simp: http_post_def creation_request_def dest: http_fetch_sent)
  show ?thesis
    using assms c2 c3
    by (simp add: session_Suc session_body_def session_payload_def empty_capabilities_def
        new_client_def)
qed

lemma session_id_creates:
  assumes unbound: "\<not> truthy (c_session_id c)"
      and probe: "status E c tr = (Return st, c1, tr1)"
      and cur: "subscript st ''sessionId'' = Inr cur" "\<not> truthy cur"
      and unlocked: "ensure_unlocked E c tr1 = (Return (), c2, tr2)"
      and post: "http_post E ''session'' empty_capabilities None c tr2 = (Return res, c3, tr3)"
      and new_sid: "getattr res ''sessionId'' = Inr new_sid" "truthy new_sid"
  shows "session_id E (Suc (Suc n)) c tr = (Return new_sid, c, tr3)"
    and "tr3 = tr2 @ [Sent (creation_request E c)]"
    and "adds_only bodiless tr tr2"
proof -
  from status_bodiless [OF probe] have c1: "c1 = c" and adds1: "adds_only bodiless tr tr1"
    by simp_all
  let ?fresh = "(BaseClient_init E (c_wda_url c) new_sid)
                  \<lparr>c_timeout := c_timeout c, c_callbacks := c_callbacks c\<rparr>"
  from session_creates [OF unlocked post new_sid(1), where n = n]
  have sess: "session E (Suc n) JNull JNull JNull JNull c tr1 = (Return ?fresh, c, tr3)"
    and tr3: "tr3 = tr2 @ [Sent (creation_request E c)]"
    and adds2: "adds_only bodiless tr1 tr2"
    by simp_all
  have fresh: "session_id E (Suc n) ?fresh tr3 = (Return new_sid, ?fresh, tr3)"
    using new_sid(2) session_id_cached [of ?fresh E "Suc n" tr3]
    by (simp add: BaseClient_init_def Let_def)
  show "session_id E (Suc (Suc n)) c tr = (Return new_sid, c, tr3)"
    using unbound probe cur c1 sess fresh by (simp add: session_id_Suc session_id_body_def)
  show "tr3 = tr2 @ [Sent (creation_request E c)]"
    by (rule tr3)
  show "adds_only bodiless tr tr2"
    by (rule adds_only_trans [OF adds1 adds2])
qed

text \<open>
  C3 (as amended). Reading the session identifier: a cached identifier is returned with
  no remote call. Otherwise the status is probed. When the probe reports a non-empty
  identifier, that identifier is returned and cached, so that the next read makes no call,
  and no session is created. When the probe reports an empty one, \<^verbatim>\<open>session()\<close> is
  called: once the device is seen unlocked the creation request is sent, and when it is
  answered with an envelope that has a non-empty identifier, that identifier is returned
  (it is not cached by the client that read it) and exactly one creation request has been
  sent. Nothing is said here of a creation request that raises: its fallback sends more.
\<close>

theorem session_id_read:
  "(truthy (c_session_id c) \<longrightarrow> session_id E n c tr = (Return (c_session_id c), c, tr))
   \<and> (\<not> truthy (c_session_id c)
        \<and> status E c tr = (Return st, c1, tr1)
        \<and> subscript st ''sessionId'' = Inr sid \<and> truthy sid
        \<longrightarrow> session_id E (Suc n) c tr = (Return sid, c\<lparr>c_session_id := sid\<rparr>, tr1)
            \<and> session_id E m (c\<lparr>c_session_id := sid\<rparr>) tr1
                = (Return sid, c\<lparr>c_session_id := sid\<rparr>, tr1)
            \<and> filter (\<lambda>ev. ev = Sent (creation_request E c)) (drop (length tr) tr1) = [])
   \<and> (\<not> truthy (c_session_id c)
        \<and> status E c tr = (Return st, c1, tr1)
        \<and> subscript st ''sessionId'' = Inr cur \<and> \<not> truthy cur
        \<and> ensure_unlocked E c tr1 = (Return (), c2, tr2)
        \<and> http_post E ''session'' empty_capabilities None c tr2 = (Return res, c3, tr3)
        \<and> getattr res ''sessionId'' = Inr new_sid \<and> truthy new_sid
        \<longrightarrow> session_id E (Suc (Suc n)) c tr = (Return new_sid, c, tr3)
            \<and> filter (\<lambda>ev. ev = Sent (creation_request E c)) (drop (length tr) tr3)
                = [Sent (creation_request E c)])"
proof -
  have cached: "session_id E n c tr = (Return (c_session_id c), c, tr)"
    if "truthy (c_session_id c)"
    using that by (rule session_id_cached)
  have found: "session_id E (Suc n) c tr = (Return sid, c\<lparr>c_session_id := sid\<rparr>, tr1)
            \<and> session_id E m (c\<lparr>c_session_id := sid\<rparr>) tr1
                = (Return sid, c\<lparr>c_session_id := sid\<rparr>, tr1)
            \<and> filter (\<lambda>ev. ev = Sent (creation_request E c)) (drop (length tr) tr1) = []"
    if unbound: "\<not> truthy (c_session_id c)"
      and probe: "status E c tr = (Return st, c1, tr1)"
      and sid: "subscript st ''sessionId'' = Inr sid" "truthy sid"
  proof -
    from status_bodiless [OF probe] have c1: "c1 = c" and adds: "adds_only bodiless tr tr1"
      by simp_all
    have "session_id E (Suc n) c tr = (Return sid, c\<lparr>c_session_id := sid\<rparr>, tr1)"
      using unbound probe sid c1 by (simp add: session_id_Suc session_id_body_def)
    moreover have "session_id E m (c\<lparr>c_session_id := sid\<rparr>) tr1
        = (Return sid, c\<lparr>c_session_id := sid\<rparr>, tr1)"
      using sid(2) session_id_cached [of "c\<lparr>c_session_id := sid\<rparr>" E m tr1] by simp
    moreover have "filter (\<lambda>ev. ev = Sent (creation_request E c)) (drop (length tr) tr1) = []"
      using adds_only_none [OF adds creation_request_body] .
    ultimately show ?thesis by simp
  qed
  have created: "session_id E (Suc (Suc n)) c tr = (Return new_sid, c, tr3)
            \<and> filter (\<lambda>ev. ev = Sent (creation_request E c)) (drop (length tr) tr3)
                = [Sent (creation_request E c)]"
    if unbound: "\<not> truthy (c_session_id c)"
      and probe: "status E c tr = (Return st, c1, tr1)"
      and cur: "subscript st ''sessionId'' = Inr cur" "\<not> truthy cur"
      and unlocked: "ensure_unlocked E c tr1 = (Return (), c2, tr2)"
      and post: "http_post E ''session'' empty_capabilities None c tr2 = (Return res, c3, tr3)"
      and new_sid: "getattr res ''sessionId'' = Inr new_sid" "truthy new_sid"
  proof -
    note made = session_id_creates [OF unbound probe cur unlocked post new_sid]
    have "filter (\<lambda>ev. ev = Sent (creation_request E c)) (drop (length tr) tr3)
        = [Sent (creation_request E c)]"
      unfolding made(2)
      using adds_only_last [OF made(3) creation_request_body] .
    with made(1) [where n = n] show ?thesis by simp
  qed
  show ?thesis
    using cached found created by blast
qed

lemmas session_defs = session_id_Suc session_Suc session_id_body_def session_body_def
  session_fallback_def session_payload_def ensure_unlocked_def locked_def unlock_def
  new_client_def BaseClient_init_def status_def status_body_def retry_internal_three
  three_attempts_def endswith_slash_def empty_capabilities_def creation_request_def

text \<open>
  An instance: the agent has no session, the device is not locked, and the creation
  request is answered with the session \<^verbatim>\<open>S2\<close>.
\<close>

theorem session_id_read_witness:
  "\<not> truthy (c_session_id unbound_client)
   \<and> status (local_env (scripted
        [ok_response idle_body (JObj idle_envelope),
         ok_response unlocked_body (JObj unlocked_envelope),
         ok_response created_body (JObj created_envelope)])) unbound_client []
      = (Return (JObj [(''ready'', JBool True), (''sessionId'', JNull)]), unbound_client,
         [Sent \<lparr>req_verb = ''GET'', req_url = ''http://localhost:8100/status'', req_json = JNull,
                req_headers = [], req_timeout = None\<rparr>])
   \<and> session_id (local_env (scripted
        [ok_response idle_body (JObj idle_envelope),
         ok_response unlocked_body (JObj unlocked_envelope),
         ok_response created_body (JObj created_envelope)])) (Suc (Suc 0)) unbound_client []
      = (Return (JStr ''S2''), unbound_client,
         [Sent \<lparr>req_verb = ''GET'', req_url = ''http://localhost:8100/status'', req_json = JNull,
                req_headers = [], req_timeout = None\<rparr>,
          Sent \<lparr>req_verb = ''GET'', req_url = ''http://localhost:8100/wda/locked'',
                req_json = JNull, req_headers = [], req_timeout = None\<rparr>,
          Sent \<lparr>req_verb = ''POST'', req_url = ''http://localhost:8100/session'',
                req_json = JObj [(''capabilities'', JObj []), (''desiredCapabilities'', JObj [])],
                req_headers = [(''Content-Type'', ''application/json'')], req_timeout = None\<rparr>])"
proof -
  let ?E = "local_env (scripted
        [ok_response idle_body (JObj idle_envelope),
         ok_response unlocked_body (JObj unlocked_envelope),
         ok_response created_body (JObj created_envelope)])"
  let ?probe = "Sent \<lparr>req_verb = ''GET'', req_url = ''http://localhost:8100/status'',
                req_json = JNull, req_headers = [], req_timeout = None\<rparr>"
  let ?lock = "Sent \<lparr>req_verb = ''GET'', req_url = ''http://localhost:8100/wda/locked'',
                req_json = JNull, req_headers = [], req_timeout = None\<rparr>"
  let ?create = "Sent \<lparr>req_verb = ''POST'', req_url = ''http://localhost:8100/session'',
                req_json = JObj [(''capabilities'', JObj []), (''desiredCapabilities'', JObj [])],
                req_headers = [(''Content-Type'', ''application/json'')], req_timeout = None\<rparr>"
  have unbound: "\<not> truthy (c_session_id unbound_client)"
    by (simp add: unbound_client_def)
  have probe: "status ?E unbound_client []
      = (Return (JObj [(''ready'', JBool True), (''sessionId'', JNull)]), unbound_client, [?probe])"
    by (simp add: session_defs run_defs example_defs unbound_client_def idle_envelope_def
        idle_body_def)
  have cur: "subscript (JObj [(''ready'', JBool True), (''sessionId'', JNull)]) ''sessionId''
      = Inr JNull" "\<not> truthy JNull"
    by simp_all
  have unlocked: "ensure_unlocked ?E unbound_client [?probe]
      = (Return (), unbound_client, [?probe, ?lock])"
    by (simp add: session_defs run_defs example_defs unbound_client_def unlocked_envelope_def
        unlocked_body_def)
  have post: "http_post ?E ''session'' empty_capabilities None unbound_client [?probe, ?lock]
      = (Return (created_envelope @ [(''status'', JInt 0)]), unbound_client,
         [?probe, ?lock, ?create])"
    by (simp add: session_defs run_defs example_defs unbound_client_def created_envelope_def
        created_body_def)
  have new_sid: "getattr (created_envelope @ [(''status'', JInt 0)]) ''sessionId''
      = Inr (JStr ''S2'')" "truthy (JStr ''S2'')"
    by (simp_all add: getattr_def created_envelope_def)
  from session_id_read [where c = unbound_client and E = ?E and n = 0 and tr = "[]"
      and st = "JObj [(''ready'', JBool True), (''sessionId'', JNull)]"
      and ?c1.0 = unbound_client and ?tr1.0 = "[?probe]" and cur = JNull
      and ?c2.0 = unbound_client and ?tr2.0 = "[?probe, ?lock]"
      and res = "created_envelope @ [(''status'', JInt 0)]"
      and ?c3.0 = unbound_client and ?tr3.0 = "[?probe, ?lock, ?create]"
      and new_sid = "JStr ''S2''"]
    unbound probe cur unlocked post new_sid
  have "session_id ?E (Suc (Suc 0)) unbound_client []
      = (Return (JStr ''S2''), unbound_client, [?probe, ?lock, ?create])"
    by blast
  with unbound probe show ?thesis by blast
qed

text \<open>
  C3 as the specification states it fails: the probe reports no session and the first
  creation request is answered with an empty body; the fallback of \<^verbatim>\<open>session\<close> creates a
  session, so two creation requests are sent before the identifier is returned.
\<close>

theorem session_id_two_creations_counterexample:
  "session_id (local_env (scripted
        [ok_response idle_body (JObj idle_envelope),
         ok_response unlocked_body (JObj unlocked_envelope),
         empty_response,
         ok_response unlocked_body (JObj unlocked_envelope),
         ok_response created_body (JObj created_envelope),
         ok_response foreground_body (JObj foreground_envelope)]))
      (Suc (Suc (Suc 0))) unbound_client []
     = (Return (JStr ''S2''), unbound_client,
        [Sent \<lparr>req_verb = ''GET'', req_url = ''http://localhost:8100/status'', req_json = JNull,
               req_headers = [], req_timeout = None\<rparr>,
         Sent \<lparr>req_verb = ''GET'', req_url = ''http://localhost:8100/wda/locked'',
               req_json = JNull, req_headers = [], req_timeout = None\<rparr>,
         Sent \<lparr>req_verb = ''POST'', req_url = ''http://localhost:8100/session'',
               req_json = JObj [(''capabilities'', JObj []), (''desiredCapabilities'', JObj [])],
               req_headers = [(''Content-Type'', ''application/json'')], req_timeout = None\<rparr>,
         Sent \<lparr>req_verb = ''GET'', req_url = ''http://localhost:8100/wda/locked'',
               req_json = JNull, req_headers = [], req_timeout = None\<rparr>,
         Sent \<lparr>req_verb = ''POST'', req_url = ''http://localhost:8100/session'',
               req_json = JObj [(''capabilities'', JObj []), (''desiredCapabilities'', JObj [])],
               req_headers = [(''Content-Type'', ''application/json'')], req_timeout = None\<rparr>,
         Sent \<lparr>req_verb = ''POST'',
               req_url = ''http://localhost:8100/session/S2/wda/apps/state'',
               req_json = JObj [(''bundleId'', JNull)],
               req_headers = [(''Content-Type'', ''application/json'')], req_timeout = None\<rparr>])"
  by (simp add: session_defs run_defs example_defs unbound_client_def idle_envelope_def
      idle_body_def unlocked_envelope_def unlocked_body_def created_envelope_def
      created_body_def foreground_envelope_def foreground_body_def empty_response_def)

subsection \<open>The fallback of session creation\<close>

lemma app_state_fetch:
  "app_state E n bundle_id c tr
     = session_fetch_body E (session_id E n) ''POST'' ''wda/apps/state''
         (JObj [(''bundleId'', bundle_id)]) None c tr"
  by (simp add: app_state_def session_http_post_def fetch_def session_fetch_def)

text \<open>
  C4 (as amended). When the creation request of \<^verbatim>\<open>session\<close> raises an empty-response
  error, \<^verbatim>\<open>session()\<close> is called again without arguments and the state of the application
  is asked of the client it returns. An exception raised by that nested call or by the
  query is raised in place of the original error. When the query returns, its value
  decides: any value but 4 raises the original empty-response error again, and 4 returns
  a new client bound to the session identifier of the query's envelope.
\<close>

theorem session_empty_response_fallback:
  assumes "session_payload bundle_id arguments environment alert_action = Inr payload"
      and "ensure_unlocked E c tr = (Return (), c2, tr2)"
      and "http_post E ''session'' payload None c tr2 = (Raise e, c3, tr3)"
      and "exc_class_of e = WDAEmptyResponseError"
  shows "(\<forall>e' c4 tr4.
            session E n JNull JNull JNull JNull c tr3 = (Raise e', c4, tr4)
            \<longrightarrow> session E (Suc n) bundle_id arguments environment alert_action c tr
                  = (Raise e', c4, tr4))
         \<and> (\<forall>fresh c4 tr4 e' fresh' tr5.
            session E n JNull JNull JNull JNull c tr3 = (Return fresh, c4, tr4)
            \<and> app_state E n bundle_id fresh tr4 = (Raise e', fresh', tr5)
            \<longrightarrow> session E (Suc n) bundle_id arguments environment alert_action c tr
                  = (Raise e', c4, tr5))
         \<and> (\<forall>fresh c4 tr4 res fresh' tr5 v.
            session E n JNull JNull JNull JNull c tr3 = (Return fresh, c4, tr4)
            \<and> app_state E n bundle_id fresh tr4 = (Return res, fresh', tr5)
            \<and> getattr res ''value'' = Inr v
            \<longrightarrow> (v \<noteq> JInt 4
                   \<longrightarrow> session E (Suc n) bundle_id arguments environment alert_action c tr
                         = (Raise e, c4, tr5))
                \<and> (\<forall>sid. v = JInt 4 \<and> getattr res ''sessionId'' = Inr sid
                     \<longrightarrow> session E (Suc n) bundle_id arguments environment alert_action c tr
                           = (Return ((BaseClient_init E (c_wda_url c4) sid)
                                        \<lparr>c_timeout := c_timeout c4,
                                           c_callbacks := c_callbacks c4\<rparr>), c4, tr5)))"
proof -
  from ensure_unlocked_bodiless [OF assms(2)] have c2: "c2 = c"
    by simp
  from assms(3) have c3: "c3 = c"
    by (auto simp: http_post_def dest: http_fetch_sent)
  have handled: "isinstance e WDAEmptyResponseError"
    using assms(4) by (simp add: isinstance_def is_subclass_def)
  have "session E (Suc n) bundle_id arguments environment alert_action c tr
      = session_fallback E (session E n) (session_id E n) e bundle_id c tr3"
    using assms(1,2,3) c2 c3 handled by (simp add: session_Suc session_body_def)
  then show ?thesis
    by (simp add: session_fallback_def app_state_fetch new_client_def)
qed

text \<open>
  An instance: an alert hides the answer to the creation request, the second request
  creates the session \<^verbatim>\<open>S2\<close>, and the application is found in state 4.
\<close>

theorem session_empty_response_fallback_witness:
  "http_post (local_env (scripted
        [ok_response unlocked_body (JObj unlocked_envelope),
         empty_response,
         ok_response unlocked_body (JObj unlocked_envelope),
         ok_response created_body (JObj created_envelope),
         ok_response foreground_body (JObj foreground_envelope)]))
      ''session'' preferences_payload None unbound_client
      [Sent \<lparr>req_verb = ''GET'', req_url = ''http://localhost:8100/wda/locked'',
             req_json = JNull, req_headers = [], req_timeout = None\<rparr>]
     = (Raise (Exc WDAEmptyResponseError
          [JStr ''POST'', JStr ''http://localhost:8100/session'', preferences_payload]),
        unbound_client,
        [Sent \<lparr>req_verb = ''GET'', req_url = ''http://localhost:8100/wda/locked'',
               req_json = JNull, req_headers = [], req_timeout = None\<rparr>,
         Sent \<lparr>req_verb = ''POST'', req_url = ''http://localhost:8100/session'',
               req_json = preferences_payload,
               req_headers = [(''Content-Type'', ''application/json'')], req_timeout = None\<rparr>])
   \<and> session (local_env (scripted
        [ok_response unlocked_body (JObj unlocked_envelope),
         empty_response,
         ok_response unlocked_body (JObj unlocked_envelope),
         ok_response created_body (JObj created_envelope),
         ok_response foreground_body (JObj foreground_envelope)]))
      (Suc (Suc 0)) (JStr ''com.apple.Preferences'') JNull JNull JNull unbound_client []
     = (Return second_client, unbound_client,
        [Sent \<lparr>req_verb = ''GET'', req_url = ''http://localhost:8100/wda/locked'',
               req_json = JNull, req_headers = [], req_timeout = None\<rparr>,
         Sent \<lparr>req_verb = ''POST'', req_url = ''http://localhost:8100/session'',
               req_json = preferences_payload,
               req_headers = [(''Content-Type'', ''application/json'')], req_timeout = None\<rparr>,
         Sent \<lparr>req_verb = ''GET'', req_url = ''http://localhost:8100/wda/locked'',
               req_json = JNull, req_headers = [], req_timeout = None\<rparr>,
         Sent \<lparr>req_verb = ''POST'', req_url = ''http://localhost:8100/session'',
               req_json = JObj [(''capabilities'', JObj []), (''desiredCapabilities'', JObj [])],
               req_headers = [(''Content-Type'', ''application/json'')], req_timeout = None\<rparr>,
         Sent \<lparr>req_verb = ''POST'',
               req_url = ''http://localhost:8100/session/S2/wda/apps/state'',
               req_json = JObj [(''bundleId'', JStr ''com.apple.Preferences'')],
               req_headers = [(''Content-Type'', ''application/json'')], req_timeout = None\<rparr>])"
proof -
  let ?E = "local_env (scripted
        [ok_response unlocked_body (JObj unlocked_envelope),
         empty_response,
         ok_response unlocked_body (JObj unlocked_envelope),
         ok_response created_body (JObj created_envelope),
         ok_response foreground_body (JObj foreground_envelope)])"
  let ?lock = "Sent \<lparr>req_verb = ''GET'', req_url = ''http://localhost:8100/wda/locked'',
               req_json = JNull, req_headers = [], req_timeout = None\<rparr>"
  let ?launch = "Sent \<lparr>req_verb = ''POST'', req_url = ''http://localhost:8100/session'',
               req_json = preferences_payload,
               req_headers = [(''Content-Type'', ''application/json'')], req_timeout = None\<rparr>"
  let ?create = "Sent \<lparr>req_verb = ''POST'', req_url = ''http://localhost:8100/session'',
               req_json = JObj [(''capabilities'', JObj []), (''desiredCapabilities'', JObj [])],
               req_headers = [(''Content-Type'', ''application/json'')], req_timeout = None\<rparr>"
  let ?state = "Sent \<lparr>req_verb = ''POST'',
               req_url = ''http://localhost:8100/session/S2/wda/apps/state'',
               req_json = JObj [(''bundleId'', JStr ''com.apple.Preferences'')],
               req_headers = [(''Content-Type'', ''application/json'')], req_timeout = None\<rparr>"
  let ?e = "Exc WDAEmptyResponseError
          [JStr ''POST'', JStr ''http://localhost:8100/session'', preferences_payload]"
  have payload: "session_payload (JStr ''com.apple.Preferences'') JNull JNull JNull
      = Inr preferences_payload"
    by (simp add: session_payload_def preferences_payload_def Let_def)
  have unlocked: "ensure_unlocked ?E unbound_client [] = (Return (), unbound_client, [?lock])"
    by (simp add: session_defs run_defs example_defs unbound_client_def unlocked_envelope_def
        unlocked_body_def)
  have post: "http_post ?E ''session'' preferences_payload None unbound_client [?lock]
      = (Raise ?e, unbound_client, [?lock, ?launch])"
    by (simp add: run_defs example_defs unbound_client_def empty_response_def
        preferences_payload_def)
  have kind: "exc_class_of ?e = WDAEmptyResponseError"
    by simp
  have nested: "session ?E (Suc 0) JNull JNull JNull JNull unbound_client [?lock, ?launch]
      = (Return second_client, unbound_client, [?lock, ?launch, ?lock, ?create])"
    by (simp add: session_defs run_defs example_defs unbound_client_def second_client_def
        unlocked_envelope_def unlocked_body_def created_envelope_def created_body_def)
  have query: "app_state ?E (Suc 0) (JStr ''com.apple.Preferences'') second_client
        [?lock, ?launch, ?lock, ?create]
      = (Return (foreground_envelope @ [(''status'', JInt 0)]), second_client,
         [?lock, ?launch, ?lock, ?create, ?state])"
    by (simp add: app_state_def session_id_cached run_defs example_defs second_client_def
        foreground_envelope_def foreground_body_def del: session_id_def)
  have answer: "getattr (foreground_envelope @ [(''status'', JInt 0)]) ''value'' = Inr (JInt 4)"
    "getattr (foreground_envelope @ [(''status'', JInt 0)]) ''sessionId'' = Inr (JStr ''S2'')"
    by (simp_all add: getattr_def foreground_envelope_def)
  have made: "(BaseClient_init ?E (c_wda_url unbound_client) (JStr ''S2''))
        \<lparr>c_timeout := c_timeout unbound_client, c_callbacks := c_callbacks unbound_client\<rparr>
      = second_client"
    by (simp add: BaseClient_init_def endswith_slash_def unbound_client_def second_client_def
        local_env_def)
  from session_empty_response_fallback [OF payload unlocked post kind, where n = "Suc 0"]
    nested query answer
  have "session ?E (Suc (Suc 0)) (JStr ''com.apple.Preferences'') JNull JNull JNull
        unbound_client []
      = (Return ((BaseClient_init ?E (c_wda_url unbound_client) (JStr ''S2''))
          \<lparr>c_timeout := c_timeout unbound_client, c_callbacks := c_callbacks unbound_client\<rparr>),
         unbound_client, [?lock, ?launch, ?lock, ?create, ?state])"
    by blast
  with post made show ?thesis by simp
qed

text \<open>
  C4 as the specification states it fails: the query of the fallback meets a network
  fault, so nothing confirms that the application runs in the foreground, and what
  \<^verbatim>\<open>session\<close> raises is the fault of the query, not the empty-response error of the
  creation request.
\<close>

theorem session_fallback_fault_counterexample:
  "session (local_env (scripted
        [ok_response unlocked_body (JObj unlocked_envelope),
         empty_response,
         ok_response unlocked_body (JObj unlocked_envelope),
         ok_response created_body (JObj created_envelope),
         RequestException ''timed out'']))
      (Suc (Suc 0)) (JStr ''com.apple.Preferences'') JNull JNull JNull unbound_client []
     = (Raise (Exc WDAError
          [JStr ''POST'', JStr ''http://localhost:8100/session/S2/wda/apps/state'',
           JStr ''timed out'']),
        unbound_client,
        [Sent \<lparr>req_verb = ''GET'', req_url = ''http://localhost:8100/wda/locked'',
               req_json = JNull, req_headers = [], req_timeout = None\<rparr>,
         Sent \<lparr>req_verb = ''POST'', req_url = ''http://localhost:8100/session'',
               req_json = preferences_payload,
               req_headers = [(''Content-Type'', ''application/json'')], req_timeout = None\<rparr>,
         Sent \<lparr>req_verb = ''GET'', req_url = ''http://localhost:8100/wda/locked'',
               req_json = JNull, req_headers = [], req_timeout = None\<rparr>,
         Sent \<lparr>req_verb = ''POST'', req_url = ''http://localhost:8100/session'',
               req_json = JObj [(''capabilities'', JObj []), (''desiredCapabilities'', JObj [])],
               req_headers = [(''Content-Type'', ''application/json'')], req_timeout = None\<rparr>,
         Sent \<lparr>req_verb = ''POST'',
               req_url = ''http://localhost:8100/session/S2/wda/apps/state'',
               req_json = JObj [(''bundleId'', JStr ''com.apple.Preferences'')],
               req_headers = [(''Content-Type'', ''application/json'')], req_timeout = None\<rparr>])
   \<and> fst (session (local_env (scripted
        [ok_response unlocked_body (JObj unlocked_envelope),
         empty_response,
         ok_response unlocked_body (JObj unlocked_envelope),
         ok_response created_body (JObj created_envelope),
         RequestException ''timed out'']))
      (Suc (Suc 0)) (JStr ''com.apple.Preferences'') JNull JNull JNull unbound_client [])
     \<noteq> Raise (Exc WDAEmptyResponseError
          [JStr ''POST'', JStr ''http://localhost:8100/session'', preferences_payload])"
  by (simp add: session_defs run_defs example_defs unbound_client_def
      unlocked_envelope_def unlocked_body_def created_envelope_def created_body_def
      empty_response_def preferences_payload_def)

subsection \<open>Closing an unbound client\<close>

lemma retry_internal_after_first:
  assumes step: "\<And>c tr r c' tr'. f c tr = (r, c', tr') \<Longrightarrow> I c' = I c \<and> adds_only P tr tr'"
      and sleep: "\<And>d. P (Slept d)"
      and first: "f c tr = (r1, c1, tr1)"
      and run: "retry_internal f k (Suc n) d j c tr = (r, c', tr')"
  shows "adds_only P tr1 tr'"
proof (cases "\<exists>e. r1 = Raise e \<and> isinstance e k \<and> n \<noteq> 0")
  case True
  then obtain e where e: "r1 = Raise e" "isinstance e k" "n \<noteq> 0"
    by blast
  from run first e
  have "retry_internal f k n (d + j) j c1 (tr1 @ [Slept d]) = (r, c', tr')"
    by simp
  from retry_internal_keeps [of f I P, OF step sleep this]
  have "adds_only P (tr1 @ [Slept d]) tr'"
    by simp
  with adds_only_snoc [OF adds_only_refl [of P tr1] sleep [of d]] show ?thesis
    by (blast intro: adds_only_trans)
next
  case False
  with run first have "tr' = tr1"
    by (cases r1) (auto split: if_splits)
  then show ?thesis by (simp add: adds_only_refl)
qed

lemma status_after_probe:
  assumes "status E c tr = (r, c', tr')"
  shows "adds_only (\<lambda>ev. \<not> is_called ev)
           (tr @ [Sent (the_request ''GET'' (plain_url E c ''status'') JNull None)]) tr'"
proof -
  let ?probe = "Sent (the_request ''GET'' (plain_url E c ''status'') JNull None)"
  have "\<exists>r1. status_body E c tr = (r1, c, tr @ [?probe])"
    by (auto simp: status_body_def http_get_def
        split: prod.splits outcome.splits option.splits json.splits dest!: http_fetch_sent)
  then obtain r1 where r1: "status_body E c tr = (r1, c, tr @ [?probe])"
    by blast
  have run: "retry_internal (status_body E) WDAEmptyResponseError (Suc 2) 2000 0 c tr
      = (r, c', tr')"
    using assms by (simp add: status_def eval_nat_numeral)
  have "adds_only bodiless (tr @ [?probe]) tr'"
    by (rule retry_internal_after_first [of "status_body E" id bodiless, OF _ _ r1 run])
      (auto dest: status_body_bodiless)
  then show ?thesis
    by (rule adds_only_mono) (auto elim: bodiless.elims)
qed

lemma session_id_after_probe:
  assumes unbound: "\<not> truthy (c_session_id c)"
      and run: "session_id E (Suc n) c tr = (r, c', tr')"
  shows "adds_only (\<lambda>ev. \<not> is_called ev)
           (tr @ [Sent (the_request ''GET'' (plain_url E c ''status'') JNull None)]) tr'"
proof -
  let ?probe = "Sent (the_request ''GET'' (plain_url E c ''status'') JNull None)"
  obtain r1 c1 tr1 where st: "status E c tr = (r1, c1, tr1)"
    by (cases "status E c tr") auto
  note a1 = status_after_probe [OF st]
  show ?thesis
  proof (cases "\<exists>stv cur. r1 = Return stv \<and> subscript stv ''sessionId'' = Inr cur \<and> \<not> truthy cur")
    case True
    then obtain stv cur where cur: "r1 = Return stv" "subscript stv ''sessionId'' = Inr cur"
      "\<not> truthy cur"
      by blast
    obtain r2 c2 tr2 where se: "session E n JNull JNull JNull JNull c1 tr1 = (r2, c2, tr2)"
      by (cases "session E n JNull JNull JNull JNull c1 tr1") auto
    from session_quiet [OF se] have a2: "adds_only (\<lambda>ev. \<not> is_called ev) tr1 tr2"
      by (simp add: quiet_def)
    show ?thesis
    proof (cases r2)
      case (Return fresh)
      obtain r3 c3 tr3 where si: "session_id E n fresh tr2 = (r3, c3, tr3)"
        by (cases "session_id E n fresh tr2") auto
      from session_id_quiet [OF si] have a3: "adds_only (\<lambda>ev. \<not> is_called ev) tr2 tr3"
        by (simp add: quiet_def)
      from run unbound st cur se Return si have "tr' = tr3"
        by (simp add: session_id_Suc session_id_body_def)
      with a1 a2 a3 show ?thesis
        by (blast intro: adds_only_trans)
    next
      case (Raise e)
      with run unbound st cur se have "tr' = tr2"
        by (simp add: session_id_Suc session_id_body_def)
      with a1 a2 show ?thesis by (blast intro: adds_only_trans)
    next
      case OutOfFuel
      with run unbound st cur se have "tr' = tr2"
        by (simp add: session_id_Suc session_id_body_def)
      with a1 a2 show ?thesis by (blast intro: adds_only_trans)
    qed
  next
    case False
    with run unbound st have "tr' = tr1"
      by (auto simp: session_id_Suc session_id_body_def
          split: outcome.splits sum.splits if_splits)
    with a1 show ?thesis by simp
  qed
qed

lemma session_http_delete_after_probe:
  assumes unbound: "\<not> truthy (c_session_id c)"
      and run: "session_http_delete E (Suc n) urlpath data tmo c tr = (r, c', tr')"
  shows "adds_only (\<lambda>ev. \<not> is_called ev)
           (tr @ [Sent (the_request ''GET'' (plain_url E c ''status'') JNull None)]) tr'"
proof -
  obtain r1 c1 tr1 where si: "session_id E (Suc n) c tr = (r1, c1, tr1)"
    by (cases "session_id E (Suc n) c tr") auto
  note a1 = session_id_after_probe [OF unbound si]
  show ?thesis
  proof (cases r1)
    case (Return sid)
    obtain r2 tr2 where f: "fetch_at E ''DELETE'' (session_url E c1 sid urlpath) data tmo tr1
        = (r2, tr2)"
      by (cases "fetch_at E ''DELETE'' (session_url E c1 sid urlpath) data tmo tr1") auto
    from fetch_at_quiet [OF f, of c1] have a2: "adds_only (\<lambda>ev. \<not> is_called ev) tr1 tr2"
      by (simp add: quiet_def)
    from run si Return f have "tr' = tr2"
      by (simp add: session_http_delete_def fetch_def session_fetch_def session_fetch_body_def)
    with a1 a2 show ?thesis by (blast intro: adds_only_trans)
  next
    case (Raise e)
    with run si have "tr' = tr1"
      by (simp add: session_http_delete_def fetch_def session_fetch_def session_fetch_body_def)
    with a1 show ?thesis by simp
  next
    case OutOfFuel
    with run si have "tr' = tr1"
      by (simp add: session_http_delete_def fetch_def session_fetch_def session_fetch_body_def)
    with a1 show ?thesis by simp
  qed
qed

lemma close_trace:
  "snd (snd (close E n c tr)) = snd (snd (session_http_delete E n '''' JNull None c tr))"
  by (simp add: close_def split: prod.splits outcome.splits)

lemma client_exit_snd: "snd (client_exit E n c tr) = snd (close E n c tr)"
  by (simp add: client_exit_def split: prod.splits outcome.splits)

text \<open>
  C10. Closing a client that is not bound to a session is not a no-op and does not fail
  at once: the DELETE reads the session identifier, so the first thing \<^verbatim>\<open>close\<close> sends is
  the status probe. When the probe reports no session, \<^verbatim>\<open>session()\<close> is called, and once
  its creation request is answered with a session identifier, the DELETE goes to that
  new session: closing has created the session it deletes. \<^verbatim>\<open>__exit__\<close> calls \<^verbatim>\<open>close\<close>
  and sends the same. The client is left unbound.
\<close>

theorem close_unbound_client:
  "(\<not> truthy (c_session_id c) \<longrightarrow>
      (\<exists>rest. snd (snd (close E (Suc n) c tr))
                 = tr @ Sent (the_request ''GET'' (plain_url E c ''status'') JNull None) # rest)
      \<and> (\<exists>rest. snd (snd (client_exit E (Suc n) c tr))
                 = tr @ Sent (the_request ''GET'' (plain_url E c ''status'') JNull None) # rest))
   \<and> (\<not> truthy (c_session_id c)
        \<and> status E c tr = (Return st, c1, tr1)
        \<and> subscript st ''sessionId'' = Inr cur \<and> \<not> truthy cur
        \<and> ensure_unlocked E c tr1 = (Return (), c2, tr2)
        \<and> http_post E ''session'' empty_capabilities None c tr2 = (Return res, c3, tr3)
        \<and> getattr res ''sessionId'' = Inr new_sid \<and> truthy new_sid
        \<longrightarrow> snd (close E (Suc (Suc n)) c tr)
              = (c, tr2 @ [Sent (creation_request E c),
                           Sent (the_request ''DELETE'' (session_url E c new_sid '''')
                                   JNull None)])
            \<and> snd (client_exit E (Suc (Suc n)) c tr)
              = (c, tr2 @ [Sent (creation_request E c),
                           Sent (the_request ''DELETE'' (session_url E c new_sid '''')
                                   JNull None)]))"
proof -
  let ?probe = "Sent (the_request ''GET'' (plain_url E c ''status'') JNull None)"
  have probed: "\<exists>rest. snd (snd (close E (Suc n) c tr)) = tr @ ?probe # rest"
    if unbound: "\<not> truthy (c_session_id c)"
  proof -
    obtain r c' tr' where run: "session_http_delete E (Suc n) '''' JNull None c tr = (r, c', tr')"
      by (cases "session_http_delete E (Suc n) '''' JNull None c tr") auto
    from session_http_delete_after_probe [OF unbound run]
    obtain added where "tr' = (tr @ [?probe]) @ added"
      by (auto simp: adds_only_def)
    with run show ?thesis by (simp add: close_trace)
  qed
  have created: "snd (close E (Suc (Suc n)) c tr)
      = (c, tr2 @ [Sent (creation_request E c),
                   Sent (the_request ''DELETE'' (session_url E c new_sid '''') JNull None)])
     \<and> snd (client_exit E (Suc (Suc n)) c tr)
      = (c, tr2 @ [Sent (creation_request E c),
                   Sent (the_request ''DELETE'' (session_url E c new_sid '''') JNull None)])"
    if unbound: "\<not> truthy (c_session_id c)"
      and probe: "status E c tr = (Return st, c1, tr1)"
      and cur: "subscript st ''sessionId'' = Inr cur" "\<not> truthy cur"
      and unlocked: "ensure_unlocked E c tr1 = (Return (), c2, tr2)"
      and post: "http_post E ''session'' empty_capabilities None c tr2 = (Return res, c3, tr3)"
      and new_sid: "getattr res ''sessionId'' = Inr new_sid" "truthy new_sid"
  proof -
    note made = session_id_creates [OF unbound probe cur unlocked post new_sid]
    obtain r4 tr4
      where del: "fetch_at E ''DELETE'' (session_url E c new_sid '''') JNull None tr3 = (r4, tr4)"
      by (cases "fetch_at E ''DELETE'' (session_url E c new_sid '''') JNull None tr3") auto
    from fetch_at_sent [OF del]
    have tr4: "tr4 = tr3 @ [Sent (the_request ''DELETE'' (session_url E c new_sid '''') JNull None)]" .
    have "session_http_delete E (Suc (Suc n)) '''' JNull None c tr = (r4, c, tr4)"
      using made(1) [where n = n] del
      by (simp add: session_http_delete_def fetch_def session_fetch_def session_fetch_body_def)
    then have "snd (close E (Suc (Suc n)) c tr) = (c, tr4)"
      by (simp add: close_def split: outcome.splits)
    moreover from this have "snd (client_exit E (Suc (Suc n)) c tr) = (c, tr4)"
      by (simp add: client_exit_snd)
    ultimately show ?thesis
      by (simp add: tr4 made(2))
  qed
  show ?thesis
    using probed created by (simp add: client_exit_snd)
qed

text \<open>
  An instance: the agent has no session and the device is not locked; \<^verbatim>\<open>close\<close> probes,
  creates the session \<^verbatim>\<open>S2\<close> and deletes it.
\<close>

theorem close_unbound_client_witness:
  "\<not> truthy (c_session_id unbound_client)
   \<and> close (local_env (scripted
        [ok_response idle_body (JObj idle_envelope),
         ok_response unlocked_body (JObj unlocked_envelope),
         ok_response created_body (JObj created_envelope),
         ok_response closed_body (JObj closed_envelope)])) (Suc (Suc 0)) unbound_client []
      = (Return (JObj (closed_envelope @ [(''status'', JInt 0)])), unbound_client,
         [Sent \<lparr>req_verb = ''GET'', req_url = ''http://localhost:8100/status'', req_json = JNull,
                req_headers = [], req_timeout = None\<rparr>,
          Sent \<lparr>req_verb = ''GET'', req_url = ''http://localhost:8100/wda/locked'',
                req_json = JNull, req_headers = [], req_timeout = None\<rparr>,
          Sent \<lparr>req_verb = ''POST'', req_url = ''http://localhost:8100/session'',
                req_json = JObj [(''capabilities'', JObj []), (''desiredCapabilities'', JObj [])],
                req_headers = [(''Content-Type'', ''application/json'')], req_timeout = None\<rparr>,
          Sent \<lparr>req_verb = ''DELETE'', req_url = ''http://localhost:8100/session/S2/'',
                req_json = JNull, req_headers = [], req_timeout = None\<rparr>])"
proof -
  let ?E = "local_env (scripted
        [ok_response idle_body (JObj idle_envelope),
         ok_response unlocked_body (JObj unlocked_envelope),
         ok_response created_body (JObj created_envelope),
         ok_response closed_body (JObj closed_envelope)])"
  let ?probe = "Sent \<lparr>req_verb = ''GET'', req_url = ''http://localhost:8100/status'',
                req_json = JNull, req_headers = [], req_timeout = None\<rparr>"
  let ?lock = "Sent \<lparr>req_verb = ''GET'', req_url = ''http://localhost:8100/wda/locked'',
                req_json = JNull, req_headers = [], req_timeout = None\<rparr>"
  let ?create = "Sent \<lparr>req_verb = ''POST'', req_url = ''http://localhost:8100/session'',
                req_json = JObj [(''capabilities'', JObj []), (''desiredCapabilities'', JObj [])],
                req_headers = [(''Content-Type'', ''application/json'')], req_timeout = None\<rparr>"
  let ?delete = "Sent \<lparr>req_verb = ''DELETE'', req_url = ''http://localhost:8100/session/S2/'',
                req_json = JNull, req_headers = [], req_timeout = None\<rparr>"
  have unbound: "\<not> truthy (c_session_id unbound_client)"
    by (simp add: unbound_client_def)
  have probe: "status ?E unbound_client []
      = (Return (JObj [(''ready'', JBool True), (''sessionId'', JNull)]), unbound_client, [?probe])"
    by (simp add: session_defs run_defs example_defs unbound_client_def idle_envelope_def
        idle_body_def)
  have cur: "subscript (JObj [(''ready'', JBool True), (''sessionId'', JNull)]) ''sessionId''
      = Inr JNull" "\<not> truthy JNull"
    by simp_all
  have unlocked: "ensure_unlocked ?E unbound_client [?probe]
      = (Return (), unbound_client, [?probe, ?lock])"
    by (simp add: session_defs run_defs example_defs unbound_client_def unlocked_envelope_def
        unlocked_body_def)
  have post: "http_post ?E ''session'' empty_capabilities None unbound_client [?probe, ?lock]
      = (Return (created_envelope @ [(''status'', JInt 0)]), unbound_client,
         [?probe, ?lock, ?create])"
    by (simp add: session_defs run_defs example_defs unbound_client_def created_envelope_def
        created_body_def)
  have new_sid: "getattr (created_envelope @ [(''status'', JInt 0)]) ''sessionId''
      = Inr (JStr ''S2'')" "truthy (JStr ''S2'')"
    by (simp_all add: getattr_def created_envelope_def)
  from close_unbound_client [where c = unbound_client and E = ?E and n = 0 and tr = "[]"
      and st = "JObj [(''ready'', JBool True), (''sessionId'', JNull)]"
      and ?c1.0 = unbound_client and ?tr1.0 = "[?probe]" and cur = JNull
      and ?c2.0 = unbound_client and ?tr2.0 = "[?probe, ?lock]"
      and res = "created_envelope @ [(''status'', JInt 0)]"
      and ?c3.0 = unbound_client and ?tr3.0 = "[?probe, ?lock, ?create]"
      and new_sid = "JStr ''S2''"]
    unbound probe cur unlocked post new_sid
  have sent: "snd (close ?E (Suc (Suc 0)) unbound_client [])
      = (unbound_client,
         [?probe, ?lock] @ [Sent (creation_request ?E unbound_client),
            Sent (the_request ''DELETE'' (session_url ?E unbound_client (JStr ''S2'') '''')
                    JNull None)])"
    by blast
  have "fst (close ?E (Suc (Suc 0)) unbound_client [])
      = Return (JObj (closed_envelope @ [(''status'', JInt 0)]))"
    by (simp add: close_def session_defs run_defs example_defs unbound_client_def
        idle_envelope_def idle_body_def unlocked_envelope_def unlocked_body_def
        created_envelope_def created_body_def closed_envelope_def closed_body_def)
  with sent have "close ?E (Suc (Suc 0)) unbound_client []
      = (Return (JObj (closed_envelope @ [(''status'', JInt 0)])), unbound_client,
         [?probe, ?lock, ?create, ?delete])"
    by (cases "close ?E (Suc (Suc 0)) unbound_client []")
      (simp add: creation_request_def empty_capabilities_def the_request_def plain_url_def
        session_url_def local_env_def unbound_client_def upper_def upper_char_def)
  with unbound show ?thesis by simp
qed

end
